theory Spec2Isabelle
  imports Main "HOL-Library.Sublist"
begin

section \<open>Python values and exceptions\<close>

text \<open>
  Every exception the modelled code can raise is a value of \<open>error\<close>; a computation that
  may raise has type \<open>error + 'a\<close>, with \<open>Inl\<close> for the exception. The two
  \<open>Exception(...)\<close> objects of \<^verbatim>\<open>auth.py\<close> are told apart by their message:
  \<open>NotAuthenticated\<close> is the one of \<^verbatim>\<open>get_access_token\<close>, \<open>AuthFailed\<close> (with
  the message) the one of the two \<^verbatim>\<open>authenticate_*\<close> methods. Two exceptions come
  out of library constructors that the code calls outside any \<^verbatim>\<open>try\<close>:
  \<open>ParserRejectedMarkup\<close> from \<^verbatim>\<open>BeautifulSoup(html_body, 'html.parser')\<close>, for markup
  the parser gives up on (a malformed declaration such as \<^verbatim>\<open><![foo[bar]]>\<close>), and
  \<open>LibraryError\<close> (with the exception's text) from
  \<^verbatim>\<open>msal.ConfidentialClientApplication\<close>, which reads the tenant's metadata over the
  network when it is built.
\<close>

datatype error =
    NotAuthenticated
  | AuthFailed string
  | AttributeError
  | TypeError
  | OSError
  | EOFError
  | ParserRejectedMarkup
  | LibraryError string

definition err_bind :: "error + 'a \<Rightarrow> ('a \<Rightarrow> error + 'b) \<Rightarrow> error + 'b" where
  "err_bind m f = (case m of Inl e \<Rightarrow> Inl e | Inr x \<Rightarrow> f x)"

text \<open>
  Parsed JSON. Numbers are integers (the code never computes with one); a JSON object is
  the association list of the parsed \<^verbatim>\<open>dict\<close>, looked up with \<open>map_of\<close>.
\<close>

datatype json =
    JNull
  | JBool bool
  | JNum int
  | JStr string
  | JArr "json list"
  | JObj "(string \<times> json) list"

section \<open>email\_parser.py\<close>

subsection \<open>The two shapes of regular expression the parser uses\<close>

text \<open>
  \<^verbatim>\<open>re.search(lit + '([^c]+)', s)\<close>: the leftmost position where the literal \<open>lit\<close>
  is followed by at least one character other than \<open>c\<close>; group 1 is the longest run of
  such characters (the class is greedy and nothing follows it).
\<close>

definition match_run_at :: "string \<Rightarrow> char \<Rightarrow> string \<Rightarrow> string option" where
  "match_run_at lit c s =
     (if prefix lit s
      then (let g = takeWhile (\<lambda>x. x \<noteq> c) (drop (length lit) s)
            in if g = [] then None else Some g)
      else None)"

fun re_search_run :: "string \<Rightarrow> char \<Rightarrow> string \<Rightarrow> string option" where
  "re_search_run lit c [] = match_run_at lit c []"
| "re_search_run lit c (x # xs) =
     (case match_run_at lit c (x # xs) of
        Some g \<Rightarrow> Some g
      | None \<Rightarrow> re_search_run lit c xs)"

text \<open>
  \<^verbatim>\<open>re.search(lit + '([^c]+)' + suf, s)\<close>: at a position where \<open>lit\<close> matches, the
  class first takes the longest run \<open>n\<close> of characters other than \<open>c\<close> and then gives
  characters back one at a time until \<open>suf\<close> follows; group 1 is what it keeps (at least
  one character). \<open>backtrack suf t k\<close> tries the lengths \<open>k, k - 1, ..., 1\<close> in that order.
\<close>

fun backtrack :: "string \<Rightarrow> string \<Rightarrow> nat \<Rightarrow> string option" where
  "backtrack suf t 0 = None"
| "backtrack suf t (Suc k) =
     (if prefix suf (drop (Suc k) t) then Some (take (Suc k) t) else backtrack suf t k)"

definition match_greedy_at :: "string \<Rightarrow> char \<Rightarrow> string \<Rightarrow> string \<Rightarrow> string option" where
  "match_greedy_at lit c suf s =
     (if prefix lit s
      then (let t = drop (length lit) s
            in backtrack suf t (length (takeWhile (\<lambda>x. x \<noteq> c) t)))
      else None)"

fun re_search_greedy :: "string \<Rightarrow> char \<Rightarrow> string \<Rightarrow> string \<Rightarrow> string option" where
  "re_search_greedy lit c suf [] = match_greedy_at lit c suf []"
| "re_search_greedy lit c suf (x # xs) =
     (case match_greedy_at lit c suf (x # xs) of
        Some g \<Rightarrow> Some g
      | None \<Rightarrow> re_search_greedy lit c suf xs)"

subsection \<open>The parsed document\<close>

text \<open>
  \<^verbatim>\<open>BeautifulSoup\<close> is a library, not code of the repository: a parsed element is
  modelled by what the parser reads from it (its stripped text, its attributes, the result
  of \<^verbatim>\<open>find_next_sibling('span')\<close>), a parsed document by its answers to the two kinds
  of \<^verbatim>\<open>find\<close> the parser makes, and the library's constructor is a parameter
  \<open>bs :: string \<Rightarrow> error + soup\<close> of every function that parses HTML: it returns the
  parsed document or raises.
\<close>

datatype tag = Tag (tag_text: string) (tag_attrs: "(string \<times> string) list")
  (tag_next_span: "tag option")

record soup =
  find_span_string :: "string \<Rightarrow> tag option"
  find_a_id :: "string \<Rightarrow> tag option"

text \<open>
  A method called on \<^verbatim>\<open>None\<close> raises \<^verbatim>\<open>AttributeError\<close>; the three methods the
  parser calls on an element are therefore partial on \<open>tag option\<close>.
\<close>

definition find_next_sibling :: "tag option \<Rightarrow> error + tag option" where
  "find_next_sibling el = (case el of None \<Rightarrow> Inl AttributeError | Some t \<Rightarrow> Inr (tag_next_span t))"

definition get_text :: "tag option \<Rightarrow> error + string" where
  "get_text el = (case el of None \<Rightarrow> Inl AttributeError | Some t \<Rightarrow> Inr (tag_text t))"

definition tag_get :: "tag option \<Rightarrow> string \<Rightarrow> string \<Rightarrow> error + string" where
  "tag_get el k dflt =
     (case el of
        None \<Rightarrow> Inl AttributeError
      | Some t \<Rightarrow> Inr (case map_of (tag_attrs t) k of None \<Rightarrow> dflt | Some v \<Rightarrow> v))"

record meeting_info =
  meeting_id :: "string option"
  passcode :: "string option"
  join_link :: "string option"
  thread_id :: "string option"
  organizer_id :: "string option"
  tenant_id :: "string option"

subsection \<open>extract\_meeting\_info\<close>

text \<open>The block \<^verbatim>\<open># Extract Meeting ID\<close>: the display id, with every space removed.\<close>

definition extract_meeting_id_step :: "soup \<Rightarrow> meeting_info \<Rightarrow> error + meeting_info" where
  "extract_meeting_id_step sp info =
     (let meeting_id_elem = find_span_string sp ''Meeting ID:''
      in if meeting_id_elem \<noteq> None
         then err_bind (find_next_sibling meeting_id_elem) (\<lambda>meeting_id_text.
                if meeting_id_text \<noteq> None
                then err_bind (get_text meeting_id_text) (\<lambda>txt.
                       Inr (info\<lparr>meeting_id := Some (filter (\<lambda>ch. ch \<noteq> CHR '' '') txt)\<rparr>))
                else Inr info)
         else Inr info)"

text \<open>The block \<^verbatim>\<open># Extract Passcode\<close>.\<close>

definition extract_passcode_step :: "soup \<Rightarrow> meeting_info \<Rightarrow> error + meeting_info" where
  "extract_passcode_step sp info =
     (let passcode_elem = find_span_string sp ''Passcode:''
      in if passcode_elem \<noteq> None
         then err_bind (find_next_sibling passcode_elem) (\<lambda>passcode_text.
                if passcode_text \<noteq> None
                then err_bind (get_text passcode_text) (\<lambda>txt. Inr (info\<lparr>passcode := Some txt\<rparr>))
                else Inr info)
         else Inr info)"

text \<open>
  Lines 57 to 68: the three searches in the join link, which is still percent-encoded.
  The character excluded by the second and third pattern is the double quote.
\<close>

definition parse_join_link :: "string \<Rightarrow> meeting_info \<Rightarrow> meeting_info" where
  "parse_join_link link info =
     (let info1 = (case re_search_run ''19%3ameeting_'' (CHR ''%'') link of
                     Some g \<Rightarrow> info\<lparr>thread_id := Some (''19:meeting_'' @ g)\<rparr>
                   | None \<Rightarrow> info);
          info2 = (case re_search_greedy ''context=%7b%22Tid%22%3a%22'' (CHR 0x22) ''%22'' link of
                     Some g \<Rightarrow> info1\<lparr>tenant_id := Some g\<rparr>
                   | None \<Rightarrow> info1)
      in (case re_search_greedy ''%22Oid%22%3a%22'' (CHR 0x22) ''%22'' link of
            Some g \<Rightarrow> info2\<lparr>organizer_id := Some g\<rparr>
          | None \<Rightarrow> info2))"

text \<open>The block \<^verbatim>\<open># Extract Join Link\<close>: the link and the identifiers read from it.\<close>

definition extract_join_link_step :: "soup \<Rightarrow> meeting_info \<Rightarrow> error + meeting_info" where
  "extract_join_link_step sp info =
     (let join_link_elem = find_a_id sp ''meet_invite_block.action.join_link''
      in if join_link_elem \<noteq> None
         then err_bind (tag_get join_link_elem ''href'' '''') (\<lambda>href.
                Inr (parse_join_link href (info\<lparr>join_link := Some href\<rparr>)))
         else Inr info)"

text \<open>The value of \<^verbatim>\<open>join_link_elem.get('href', '')\<close> for an anchor that was found.\<close>

definition href_of :: "tag \<Rightarrow> string" where
  "href_of t = (case map_of (tag_attrs t) ''href'' of None \<Rightarrow> [] | Some v \<Rightarrow> v)"

text \<open>
  \<^verbatim>\<open>extract_meeting_info\<close>. The constructor of the parsed document is called first and
  outside any \<^verbatim>\<open>try\<close>: its exception leaves the function.
\<close>

definition extract_meeting_info ::
  "(string \<Rightarrow> error + soup) \<Rightarrow> string \<Rightarrow> error + meeting_info" where
  "extract_meeting_info bs html_body =
     err_bind (bs html_body) (\<lambda>sp.
       (let info = \<lparr>meeting_id = None, passcode = None, join_link = None,
                     thread_id = None, organizer_id = None, tenant_id = None\<rparr>
        in err_bind (extract_meeting_id_step sp info) (\<lambda>info1.
           err_bind (extract_passcode_step sp info1) (\<lambda>info2.
           extract_join_link_step sp info2))))"

subsection \<open>extract\_meeting\_id\_from\_url\<close>

text \<open>
  \<^verbatim>\<open>urllib.parse.unquote\<close> is the standard library's: the parameter \<open>unquote\<close>.
\<close>

definition extract_meeting_id_from_url :: "(string \<Rightarrow> string) \<Rightarrow> string \<Rightarrow> string option" where
  "extract_meeting_id_from_url unquote join_url =
     (let decoded = unquote join_url
      in (case re_search_run ''19:meeting_'' (CHR ''@'') decoded of
            Some g \<Rightarrow> Some (''19:meeting_'' @ g)
          | None \<Rightarrow> None))"

section \<open>config.py\<close>

text \<open>
  The class attributes of \<^verbatim>\<open>Config\<close> are computed once, when the module is imported,
  from the process environment \<open>env\<close>. \<^verbatim>\<open>str.split\<close> is Python's own: the parameter
  \<open>split\<close>.
\<close>

record config =
  TENANT_ID :: string
  CLIENT_ID :: string
  CLIENT_SECRET :: string
  USERNAME :: string
  PASSWORD :: string
  REDIRECT_URI :: string
  SCOPE :: "string list"
  GRAPH_API_ENDPOINT :: string

definition getenv :: "(string \<rightharpoonup> string) \<Rightarrow> string \<Rightarrow> string \<Rightarrow> string" where
  "getenv env k dflt = (case env k of None \<Rightarrow> dflt | Some v \<Rightarrow> v)"

definition Config :: "(string \<Rightarrow> string list) \<Rightarrow> (string \<rightharpoonup> string) \<Rightarrow> config" where
  "Config split env =
     \<lparr>TENANT_ID = getenv env ''TENANT_ID'' [],
      CLIENT_ID = getenv env ''CLIENT_ID'' [],
      CLIENT_SECRET = getenv env ''CLIENT_SECRET'' [],
      USERNAME = getenv env ''USERNAME'' [],
      PASSWORD = getenv env ''PASSWORD'' [],
      REDIRECT_URI = getenv env ''REDIRECT_URI'' ''https://localhost'',
      SCOPE = split (getenv env ''SCOPE'' ''offline_access Calendars.Read''),
      GRAPH_API_ENDPOINT = getenv env ''GRAPH_API_ENDPOINT'' ''https://graph.microsoft.com/v1.0''\<rparr>"

definition authority :: "config \<Rightarrow> string" where
  "authority cfg = ''https://login.microsoftonline.com/'' @ TENANT_ID cfg"

section \<open>auth.py\<close>

text \<open>
  The identity library (\<^verbatim>\<open>msal\<close>) is a parameter. A grant either raises (with the
  exception's text) or returns a dictionary, of which the model keeps the string-valued
  entries the code reads. An application object is its two grant operations. The
  constructor of the application, given the client id, the secret and the authority,
  returns the application or raises; \<^verbatim>\<open>GraphAuth.__init__\<close> calls it outside any
  \<^verbatim>\<open>try\<close>, so that constructing the authenticator can raise.
\<close>

datatype grant = Raises string | Result "(string \<times> string) list"

record msal_app =
  acquire_token_by_username_password :: "string \<Rightarrow> string \<Rightarrow> string list \<Rightarrow> grant"
  acquire_token_by_authorization_code :: "string \<Rightarrow> string list \<Rightarrow> string \<Rightarrow> grant"

record graph_auth =
  auth_config :: config
  app :: msal_app
  access_token :: "string option"

definition GraphAuth ::
  "(string \<Rightarrow> string \<Rightarrow> string \<Rightarrow> error + msal_app) \<Rightarrow> config \<Rightarrow> error + graph_auth" where
  "GraphAuth msal cfg =
     err_bind (msal (CLIENT_ID cfg) (CLIENT_SECRET cfg) (authority cfg)) (\<lambda>application.
       Inr \<lparr>auth_config = cfg, app = application, access_token = None\<rparr>)"

text \<open>
  What the two \<^verbatim>\<open>authenticate_*\<close> methods do with the outcome of the grant: a result
  with an \<^verbatim>\<open>access_token\<close> stores it in the object and returns it; any other result
  raises inside the \<^verbatim>\<open>try\<close>, and the handler raises again with the prefix \<open>pre\<close>.
\<close>

definition store_grant :: "string \<Rightarrow> graph_auth \<Rightarrow> grant \<Rightarrow> (error + string) \<times> graph_auth" where
  "store_grant pre a g =
     (case g of
        Raises msg \<Rightarrow> (Inl (AuthFailed (pre @ msg)), a)
      | Result r \<Rightarrow>
          (case map_of r ''access_token'' of
             Some tok \<Rightarrow> (Inr tok, a\<lparr>access_token := Some tok\<rparr>)
           | None \<Rightarrow>
               (let err = (case map_of r ''error_description'' of
                             Some d \<Rightarrow> d
                           | None \<Rightarrow> (case map_of r ''error'' of
                                        Some e \<Rightarrow> e
                                      | None \<Rightarrow> ''Unknown error''))
                in (Inl (AuthFailed (pre @ ''Authentication failed: '' @ err)), a))))"

definition authenticate_with_password :: "graph_auth \<Rightarrow> (error + string) \<times> graph_auth" where
  "authenticate_with_password a =
     store_grant ''Failed to authenticate: '' a
       (acquire_token_by_username_password (app a)
          (USERNAME (auth_config a)) (PASSWORD (auth_config a)) (SCOPE (auth_config a)))"

definition authenticate_with_code :: "graph_auth \<Rightarrow> string \<Rightarrow> (error + string) \<times> graph_auth" where
  "authenticate_with_code a authorization_code =
     store_grant ''Failed to authenticate with code: '' a
       (acquire_token_by_authorization_code (app a)
          authorization_code (SCOPE (auth_config a)) (REDIRECT_URI (auth_config a)))"

text \<open>
  \<^verbatim>\<open>if not self.access_token\<close> holds for \<^verbatim>\<open>None\<close> and for the empty string.
\<close>

definition get_access_token :: "graph_auth \<Rightarrow> error + string" where
  "get_access_token a =
     (case access_token a of
        None \<Rightarrow> Inl NotAuthenticated
      | Some tok \<Rightarrow> if tok = [] then Inl NotAuthenticated else Inr tok)"

section \<open>graph\_client.py\<close>

text \<open>
  A request is what \<^verbatim>\<open>requests.get\<close> is given. A response is the three things the
  client reads from it; \<open>json_body = None\<close> is a body \<^verbatim>\<open>response.json()\<close> raises on.
  The network is a parameter: its answer to a request may depend on all requests sent
  before, and \<open>None\<close> is a transport exception.

  Objects of class \<^verbatim>\<open>GraphAuth\<close> live in a store, since the client keeps a reference to
  the authenticator it was built with and the caller may change that object later. The
  state also logs every request sent and holds the files written. Python's \<^verbatim>\<open>None\<close>
  as a JSON-like value is \<open>JNull\<close>.
\<close>

record request =
  req_url :: string
  req_headers :: "string \<rightharpoonup> string"
  req_params :: "(string \<times> string) list"

record response =
  status_code :: int
  resp_text :: string
  json_body :: "json option"

type_synonym network = "request list \<Rightarrow> request \<Rightarrow> response option"

record state =
  auths :: "nat \<Rightarrow> graph_auth"
  next_ref :: nat
  sent :: "request list"
  files :: "string \<rightharpoonup> json"

record graph_client =
  auth :: nat
  base_url :: string
  headers :: "string \<rightharpoonup> string"

definition requests_get :: "network \<Rightarrow> request \<Rightarrow> state \<Rightarrow> response option \<times> state" where
  "requests_get net rq st = (net (sent st) rq, st\<lparr>sent := sent st @ [rq]\<rparr>)"

definition GraphClient :: "state \<Rightarrow> nat \<Rightarrow> error + graph_client" where
  "GraphClient st a =
     err_bind (get_access_token (auths st a)) (\<lambda>tok.
       Inr \<lparr>auth = a,
            base_url = ''https://graph.microsoft.com/v1.0'',
            headers = [''Authorization'' \<mapsto> ''Bearer '' @ tok,
                       ''Content-Type'' \<mapsto> ''application/json'']\<rparr>)"

definition refresh_headers :: "state \<Rightarrow> graph_client \<Rightarrow> error + graph_client" where
  "refresh_headers st c =
     err_bind (get_access_token (auths st (auth c))) (\<lambda>tok.
       Inr (c\<lparr>headers := (headers c)(''Authorization'' \<mapsto> ''Bearer '' @ tok)\<rparr>))"

text \<open>\<^verbatim>\<open>x.get(k, default)\<close>: only a dictionary has the method.\<close>

definition py_get :: "json \<Rightarrow> string \<Rightarrow> json \<Rightarrow> error + json" where
  "py_get j k dflt =
     (case j of
        JObj kvs \<Rightarrow> Inr (case map_of kvs k of None \<Rightarrow> dflt | Some v \<Rightarrow> v)
      | _ \<Rightarrow> Inl AttributeError)"

text \<open>
  A value inside an f-string: a string is itself, \<^verbatim>\<open>None\<close> and the booleans are
  their names; \<^verbatim>\<open>str\<close> of a number, a list or a dictionary is the parameter \<open>pystr\<close>.
\<close>

definition py_format :: "(json \<Rightarrow> string) \<Rightarrow> json \<Rightarrow> string" where
  "py_format pystr j =
     (case j of
        JStr s \<Rightarrow> s
      | JNull \<Rightarrow> ''None''
      | JBool b \<Rightarrow> (if b then ''True'' else ''False'')
      | _ \<Rightarrow> pystr j)"

text \<open>
  The five URLs the client builds, and the request that
  \<^verbatim>\<open>requests.get(url, headers=self.headers)\<close> sends (with \<^verbatim>\<open>params\<close> in
  \<^verbatim>\<open>list_online_meetings\<close>).
\<close>

definition meeting_url :: "graph_client \<Rightarrow> string \<Rightarrow> string" where
  "meeting_url c mid = base_url c @ ''/me/onlineMeetings/'' @ mid"

definition quoted_meeting_url :: "graph_client \<Rightarrow> string \<Rightarrow> string" where
  "quoted_meeting_url c mid =
     base_url c @ ''/me/onlineMeetings('' @ [CHR 0x27] @ mid @ [CHR 0x27] @ '')''"

definition reports_url :: "graph_client \<Rightarrow> string \<Rightarrow> string" where
  "reports_url c mid = base_url c @ ''/me/onlineMeetings/'' @ mid @ ''/attendanceReports''"

definition records_url :: "(json \<Rightarrow> string) \<Rightarrow> graph_client \<Rightarrow> string \<Rightarrow> json \<Rightarrow> string" where
  "records_url pystr c mid report_id =
     base_url c @ ''/me/onlineMeetings/'' @ mid @ ''/attendanceReports/''
       @ py_format pystr report_id @ ''/attendanceRecords''"

definition meetings_url :: "graph_client \<Rightarrow> string" where
  "meetings_url c = base_url c @ ''/me/onlineMeetings''"

definition get_request :: "graph_client \<Rightarrow> string \<Rightarrow> (string \<times> string) list \<Rightarrow> request" where
  "get_request c u ps = \<lparr>req_url = u, req_headers = headers c, req_params = ps\<rparr>"

text \<open>
  The body of the \<^verbatim>\<open>try\<close> of \<^verbatim>\<open>get_online_meeting_attendance_report\<close>, in its
  two parts. Every exception in it (a transport error, a body that is not JSON) ends in
  the handler, which returns \<^verbatim>\<open>None\<close>.

  First the meeting is looked up by its id, and once more under the quoted URL when the
  answer was 404. The result is the response the code goes on with (\<open>None\<close>: the
  request raised).
\<close>

definition meeting_lookup ::
  "network \<Rightarrow> graph_client \<Rightarrow> string \<Rightarrow> state \<Rightarrow> response option \<times> state" where
  "meeting_lookup net c mid st =
     (let (r1, st1) = requests_get net (get_request c (meeting_url c mid) []) st
      in (case r1 of
            None \<Rightarrow> (None, st1)
          | Some resp1 \<Rightarrow>
              if status_code resp1 = 404
              then requests_get net (get_request c (quoted_meeting_url c mid) []) st1
              else (Some resp1, st1)))"

text \<open>Then, under \<^verbatim>\<open># Now get attendance reports\<close>, the collection is fetched.\<close>

definition reports_lookup :: "network \<Rightarrow> graph_client \<Rightarrow> string \<Rightarrow> state \<Rightarrow> json \<times> state" where
  "reports_lookup net c mid st =
     (let (r3, st3) = requests_get net (get_request c (reports_url c mid) []) st
      in (case r3 of
            None \<Rightarrow> (JNull, st3)
          | Some attendance_response \<Rightarrow>
              if status_code attendance_response = 200
              then (case json_body attendance_response of
                      None \<Rightarrow> (JNull, st3)
                    | Some j \<Rightarrow> (j, st3))
              else (JNull, st3)))"

definition attendance_report_try :: "network \<Rightarrow> graph_client \<Rightarrow> string \<Rightarrow> state \<Rightarrow> json \<times> state" where
  "attendance_report_try net c mid st =
     (let (r2, st2) = meeting_lookup net c mid st
      in (case r2 of
            None \<Rightarrow> (JNull, st2)
          | Some resp2 \<Rightarrow>
              if status_code resp2 = 200
              then (case json_body resp2 of
                      None \<Rightarrow> (JNull, st2)
                    | Some meeting_data \<Rightarrow> reports_lookup net c mid st2)
              else (JNull, st2)))"

text \<open>
  \<^verbatim>\<open>_refresh_headers\<close> is called before the \<^verbatim>\<open>try\<close>: its exception leaves the
  method. The result is the outcome, the client (its headers are rewritten) and the state.
\<close>

definition get_online_meeting_attendance_report ::
  "network \<Rightarrow> graph_client \<Rightarrow> string \<Rightarrow> state \<Rightarrow> (error + json) \<times> graph_client \<times> state" where
  "get_online_meeting_attendance_report net c mid st =
     (case refresh_headers st c of
        Inl e \<Rightarrow> (Inl e, c, st)
      | Inr c1 \<Rightarrow> (let (j, st1) = attendance_report_try net c1 mid st in (Inr j, c1, st1)))"

text \<open>
  What \<^verbatim>\<open>get_meeting_attendance_records\<close> and \<^verbatim>\<open>list_online_meetings\<close> return for
  the response to their one request (or for the exception it raised).
\<close>

definition value_of_response :: "response option \<Rightarrow> json" where
  "value_of_response r =
     (case r of
        None \<Rightarrow> JNull
      | Some resp \<Rightarrow>
          if status_code resp = 200
          then (case json_body resp of
                  None \<Rightarrow> JNull
                | Some data \<Rightarrow> (case py_get data ''value'' (JArr []) of
                                 Inl e \<Rightarrow> JNull
                               | Inr v \<Rightarrow> v))
          else JNull)"

definition get_meeting_attendance_records ::
  "network \<Rightarrow> (json \<Rightarrow> string) \<Rightarrow> graph_client \<Rightarrow> string \<Rightarrow> json \<Rightarrow> state
     \<Rightarrow> (error + json) \<times> graph_client \<times> state" where
  "get_meeting_attendance_records net pystr c mid report_id st =
     (case refresh_headers st c of
        Inl e \<Rightarrow> (Inl e, c, st)
      | Inr c1 \<Rightarrow>
          (let (r, st1) = requests_get net
                 (get_request c1 (records_url pystr c1 mid report_id) []) st
           in (Inr (value_of_response r), c1, st1)))"

text \<open>\<^verbatim>\<open>if filter_query\<close> fails for \<^verbatim>\<open>None\<close> and for the empty string.\<close>

definition list_online_meetings ::
  "network \<Rightarrow> graph_client \<Rightarrow> string option \<Rightarrow> state \<Rightarrow> (error + json) \<times> graph_client \<times> state" where
  "list_online_meetings net c filter_query st =
     (case refresh_headers st c of
        Inl e \<Rightarrow> (Inl e, c, st)
      | Inr c1 \<Rightarrow>
          (let ps = (case filter_query of
                       None \<Rightarrow> []
                     | Some q \<Rightarrow> if q = [] then [] else [(''$filter'', q)]);
               (r, st1) = requests_get net (get_request c1 (meetings_url c1) ps) st
           in (Inr (value_of_response r), c1, st1)))"

section \<open>main.py\<close>

text \<open>
  Truth value, iteration and \<^verbatim>\<open>len\<close> of a JSON-like value. A dictionary iterates over
  its keys and a string over its characters; \<^verbatim>\<open>None\<close>, a number and a boolean raise
  \<^verbatim>\<open>TypeError\<close> under \<^verbatim>\<open>len\<close>, \<^verbatim>\<open>for\<close> and \<^verbatim>\<open>list.extend\<close> alike.
\<close>

definition py_truthy :: "json \<Rightarrow> bool" where
  "py_truthy j =
     (case j of
        JNull \<Rightarrow> False
      | JBool b \<Rightarrow> b
      | JNum n \<Rightarrow> n \<noteq> 0
      | JStr s \<Rightarrow> s \<noteq> []
      | JArr xs \<Rightarrow> xs \<noteq> []
      | JObj kvs \<Rightarrow> kvs \<noteq> [])"

definition py_iter :: "json \<Rightarrow> error + json list" where
  "py_iter j =
     (case j of
        JArr xs \<Rightarrow> Inr xs
      | JObj kvs \<Rightarrow> Inr (map (\<lambda>kv. JStr (fst kv)) kvs)
      | JStr s \<Rightarrow> Inr (map (\<lambda>ch. JStr [ch]) s)
      | _ \<Rightarrow> Inl TypeError)"

text \<open>
  Everything outside the repository that a run depends on: the HTML parser, the
  configuration, the identity library, the network, \<^verbatim>\<open>str\<close>, the line typed at the
  prompt after \<^verbatim>\<open>strip()\<close> (\<open>None\<close>: \<^verbatim>\<open>input\<close> raises), the two readings of the clock
  (as \<^verbatim>\<open>strftime\<close> and \<^verbatim>\<open>isoformat\<close> print them), and whether the file system lets a
  directory be made and a file be opened for writing.
\<close>

record world =
  w_bs :: "string \<Rightarrow> error + soup"
  w_config :: config
  w_msal :: "string \<Rightarrow> string \<Rightarrow> string \<Rightarrow> error + msal_app"
  w_net :: network
  w_pystr :: "json \<Rightarrow> string"
  w_input :: "string option"
  w_strftime :: string
  w_isoformat :: string
  w_makedirs_ok :: "string \<Rightarrow> bool"
  w_open_ok :: "string \<Rightarrow> bool"

definition opt_json :: "string option \<Rightarrow> json" where
  "opt_json x = (case x of None \<Rightarrow> JNull | Some s \<Rightarrow> JStr s)"

definition info_json :: "meeting_info \<Rightarrow> json" where
  "info_json info =
     JObj [(''meeting_id'', opt_json (meeting_id info)),
           (''passcode'', opt_json (passcode info)),
           (''join_link'', opt_json (join_link info)),
           (''thread_id'', opt_json (thread_id info)),
           (''organizer_id'', opt_json (organizer_id info)),
           (''tenant_id'', opt_json (tenant_id info))]"

text \<open>
  \<^verbatim>\<open>save_attendance_report\<close>. The dictionary always has the key \<^verbatim>\<open>'meeting_id'\<close>, so
  \<^verbatim>\<open>get\<close> never falls back on \<^verbatim>\<open>'unknown'\<close>: for a display id that was not found it
  returns \<^verbatim>\<open>None\<close>, and \<^verbatim>\<open>None.replace\<close> raises \<^verbatim>\<open>AttributeError\<close>.
\<close>

definition save_attendance_report ::
  "world \<Rightarrow> meeting_info \<Rightarrow> json \<Rightarrow> string \<Rightarrow> state \<Rightarrow> (error + string) \<times> state" where
  "save_attendance_report w info attendance_data output_dir st =
     (if \<not> w_makedirs_ok w output_dir then (Inl OSError, st)
      else (case meeting_id info of
              None \<Rightarrow> (Inl AttributeError, st)
            | Some m \<Rightarrow>
                (let meeting_id_clean = map (\<lambda>ch. if ch = CHR '' '' then CHR ''_'' else ch) m;
                     filename = output_dir @ ''/attendance_'' @ meeting_id_clean @ ''_''
                                @ w_strftime w @ ''.json'';
                     report = JObj [(''meeting_info'', info_json info),
                                    (''attendance_data'', attendance_data),
                                    (''extracted_at'', JStr (w_isoformat w))]
                 in if \<not> w_open_ok w filename then (Inl OSError, st)
                    else (Inr filename, st\<lparr>files := (files st)(filename \<mapsto> report)\<rparr>))))"

text \<open>Lines 89 to 96: the loop over the reports; \<open>acc\<close> is \<^verbatim>\<open>all_records\<close>.\<close>

fun collect_records ::
  "world \<Rightarrow> graph_client \<Rightarrow> string \<Rightarrow> json list \<Rightarrow> json list \<Rightarrow> state
     \<Rightarrow> (error + json list) \<times> state" where
  "collect_records w c mid [] acc st = (Inr acc, st)"
| "collect_records w c mid (report # rest) acc st =
     (case py_get report ''id'' JNull of
        Inl e \<Rightarrow> (Inl e, st)
      | Inr report_id \<Rightarrow>
          (case get_meeting_attendance_records (w_net w) (w_pystr w) c mid report_id st of
             (Inl e, c1, st1) \<Rightarrow> (Inl e, st1)
           | (Inr records, c1, st1) \<Rightarrow>
               if py_truthy records
               then (case py_iter records of
                       Inl e \<Rightarrow> (Inl e, st1)
                     | Inr xs \<Rightarrow> collect_records w c1 mid rest (acc @ xs) st1)
               else collect_records w c1 mid rest acc st1))"

text \<open>
  Lines 116 to 121: the lookups made for the summary of one record. What is printed is
  not modelled; which lookups are made, and so which exception can leave the loop, is.
\<close>

definition summary_of_record :: "json \<Rightarrow> error + unit" where
  "summary_of_record rec =
     err_bind (py_get rec ''identity'' (JObj [])) (\<lambda>identity.
     err_bind (py_get identity ''emailAddress'' (JObj [])) (\<lambda>ea.
     err_bind (py_get ea ''address'' (JStr ''N/A'')) (\<lambda>email.
     err_bind (py_get identity ''emailAddress'' (JObj [])) (\<lambda>ea2.
     err_bind (py_get ea2 ''name'' (JStr ''N/A'')) (\<lambda>name.
     err_bind (py_get rec ''joinDateTime'' (JStr ''N/A'')) (\<lambda>join_time.
     err_bind (py_get rec ''leaveDateTime'' (JStr ''N/A'')) (\<lambda>leave_time.
     err_bind (py_get rec ''totalAttendanceInSeconds'' (JNum 0)) (\<lambda>duration.
     Inr ()))))))))"

fun print_summary :: "json list \<Rightarrow> error + unit" where
  "print_summary [] = Inr ()"
| "print_summary (rec # rest) = err_bind (summary_of_record rec) (\<lambda>u. print_summary rest)"

text \<open>
  Lines 71 to 137, after a successful authentication of the object at \<open>a\<close>. The
  \<^verbatim>\<open>thread_id\<close> goes into the URLs through an f-string.
\<close>

definition fetch_and_save ::
  "world \<Rightarrow> meeting_info \<Rightarrow> nat \<Rightarrow> state \<Rightarrow> (error + string option) \<times> state" where
  "fetch_and_save w info a st =
     (case GraphClient st a of
        Inl e \<Rightarrow> (Inl e, st)
      | Inr client \<Rightarrow>
          (let mid = py_format (w_pystr w) (opt_json (thread_id info))
           in (case get_online_meeting_attendance_report (w_net w) client mid st of
                 (Inl e, client1, st1) \<Rightarrow> (Inl e, st1)
               | (Inr attendance_report, client1, st1) \<Rightarrow>
                   if py_truthy attendance_report
                   then (case py_get attendance_report ''value'' (JArr []) of
                           Inl e \<Rightarrow> (Inl e, st1)
                         | Inr reports \<Rightarrow>
                             if py_truthy reports
                             then (case py_iter reports of
                                     Inl e \<Rightarrow> (Inl e, st1)
                                   | Inr rs \<Rightarrow>
                                       (case collect_records w client1 mid rs [] st1 of
                                          (Inl e, st2) \<Rightarrow> (Inl e, st2)
                                        | (Inr all_records, st2) \<Rightarrow>
                                            (case save_attendance_report w info
                                                    (JObj [(''reports'', reports),
                                                           (''attendance_records'', JArr all_records)])
                                                    ''attendance_reports'' st2 of
                                               (Inl e, st3) \<Rightarrow> (Inl e, st3)
                                             | (Inr filename, st3) \<Rightarrow>
                                                 (case print_summary all_records of
                                                    Inl e \<Rightarrow> (Inl e, st3)
                                                  | Inr u \<Rightarrow> (Inr (Some filename), st3)))))
                             else (Inr None, st1))
                   else (Inr None, st1))))"

text \<open>
  \<^verbatim>\<open>process_email_html\<close>. \<open>Inr None\<close> is the return value \<^verbatim>\<open>None\<close>, \<open>Inr (Some f)\<close>
  the file name, \<open>Inl e\<close> an exception that leaves the function. The new authenticator
  is stored at the next free reference. Only the two \<^verbatim>\<open>authenticate_*\<close> calls (and the
  prompt) are inside a \<^verbatim>\<open>try\<close>: the parser, the constructor \<^verbatim>\<open>GraphAuth()\<close>, the
  constructor of the client and everything after it are not.
\<close>

definition process_email_html ::
  "world \<Rightarrow> string \<Rightarrow> bool \<Rightarrow> state \<Rightarrow> (error + string option) \<times> state" where
  "process_email_html w html_body use_password_auth st =
     (case extract_meeting_info (w_bs w) html_body of
        Inl e \<Rightarrow> (Inl e, st)
      | Inr info \<Rightarrow>
          if \<not> py_truthy (opt_json (thread_id info)) then (Inr None, st)
          else
            (case GraphAuth (w_msal w) (w_config w) of
               Inl e \<Rightarrow> (Inl e, st)
             | Inr new_auth \<Rightarrow>
                 (let a = next_ref st;
                      st1 = st\<lparr>auths := (auths st)(a := new_auth), next_ref := Suc a\<rparr>;
                      (r, obj) =
                        (if use_password_auth then authenticate_with_password (auths st1 a)
                         else (case w_input w of
                                 None \<Rightarrow> (Inl EOFError, auths st1 a)
                               | Some auth_code \<Rightarrow>
                                   authenticate_with_code (auths st1 a) auth_code));
                      st2 = st1\<lparr>auths := (auths st1)(a := obj)\<rparr>
                  in (case r of
                        Inl e \<Rightarrow> (Inr None, st2)
                      | Inr tok \<Rightarrow> fetch_and_save w info a st2))))"

section \<open>refresh\_token.py\<close>

text \<open>
  The module's four settings, the answer of \<^verbatim>\<open>requests.post\<close> to the form it is sent
  (\<open>None\<close>: a transport exception), and whether \<^verbatim>\<open>access_token.txt\<close> can be opened.
  The outcome is the value returned, what was printed on standard output, the local
  dictionary \<^verbatim>\<open>output\<close> once it is built, and the text written to the file.
\<close>

record refresh_env =
  rt_TENANT_ID :: string
  rt_CLIENT_ID :: string
  rt_CLIENT_SECRET :: string
  rt_SCOPE :: string
  rt_post :: "string \<Rightarrow> (string \<times> string) list \<Rightarrow> response option"
  rt_pystr :: "json \<Rightarrow> string"
  rt_open_ok :: bool

record refresh_outcome =
  returned :: json
  stdout :: "string list"
  output_dict :: "(string \<times> json) list option"
  written :: "string option"

definition failed_refresh :: refresh_outcome where
  "failed_refresh = \<lparr>returned = JNull, stdout = [], output_dict = None, written = None\<rparr>"

definition json_get :: "(string \<times> json) list \<Rightarrow> string \<Rightarrow> json \<Rightarrow> json" where
  "json_get kvs k dflt = (case map_of kvs k of None \<Rightarrow> dflt | Some v \<Rightarrow> v)"

text \<open>
  Lines 93 to 123, for a response that parsed to the dictionary \<open>result\<close> holding an
  \<^verbatim>\<open>access_token\<close>.
\<close>

definition report_tokens :: "refresh_env \<Rightarrow> string \<Rightarrow> (string \<times> json) list \<Rightarrow> refresh_outcome" where
  "report_tokens env refresh_token result =
     (let fmt = py_format (rt_pystr env);
          nl = [CHR 0x0A];
          acc_tok = json_get result ''access_token'' JNull;
          new_refresh_token = json_get result ''refresh_token'' (JStr refresh_token);
          out = replicate 80 (CHR ''='')
                # ''SUCCESS - NEW ACCESS TOKEN OBTAINED''
                # replicate 80 (CHR ''='')
                # (nl @ ''Bearer Token: '' @ fmt acc_tok)
                # (nl @ ''Token Type: '' @ fmt (json_get result ''token_type'' (JStr ''Bearer'')))
                # (''Expires In: '' @ fmt (json_get result ''expires_in'' (JStr ''N/A'')) @ '' seconds'')
                # (if map_of result ''refresh_token'' \<noteq> None
                   then [nl @ ''New Refresh Token: '' @ fmt new_refresh_token] else []);
          outp = [(''access_token'', acc_tok),
                  (''token_type'', json_get result ''token_type'' (JStr ''Bearer'')),
                  (''expires_in'', json_get result ''expires_in'' JNull),
                  (''refresh_token'', new_refresh_token),
                  (''scope'', json_get result ''scope'' (JStr (rt_SCOPE env)))]
      in if rt_open_ok env
         then \<lparr>returned = JObj result, stdout = out, output_dict = Some outp,
               written = Some (''Bearer Token: '' @ fmt acc_tok @ nl
                               @ ''Token Type: '' @ fmt (json_get outp ''token_type'' JNull) @ nl
                               @ ''Expires In: '' @ fmt (json_get outp ''expires_in'' JNull)
                               @ '' seconds'' @ nl
                               @ nl @ ''Refresh Token: '' @ fmt new_refresh_token @ nl)\<rparr>
         else \<lparr>returned = JNull, stdout = out, output_dict = Some outp, written = None\<rparr>)"

text \<open>
  \<^verbatim>\<open>refresh_access_token\<close>. \<^verbatim>\<open>raise_for_status\<close> raises for a status from 400 to 599.
  A parsed body that is not a dictionary ends in \<^verbatim>\<open>None\<close> on every path: either the
  test \<^verbatim>\<open>'access_token' in result\<close> or the subscript after it raises, or the test fails.
\<close>

definition refresh_access_token :: "refresh_env \<Rightarrow> string \<Rightarrow> refresh_outcome" where
  "refresh_access_token env refresh_token =
     (let token_url = ''https://login.microsoftonline.com/'' @ rt_TENANT_ID env
                      @ ''/oauth2/v2.0/token'';
          data = [(''grant_type'', ''refresh_token''),
                  (''client_id'', rt_CLIENT_ID env),
                  (''client_secret'', rt_CLIENT_SECRET env),
                  (''refresh_token'', refresh_token),
                  (''scope'', rt_SCOPE env)]
      in (case rt_post env token_url data of
            None \<Rightarrow> failed_refresh
          | Some resp \<Rightarrow>
              if 400 \<le> status_code resp \<and> status_code resp < 600 then failed_refresh
              else (case json_body resp of
                      None \<Rightarrow> failed_refresh
                    | Some (JObj result) \<Rightarrow>
                        if map_of result ''access_token'' \<noteq> None
                        then report_tokens env refresh_token result
                        else failed_refresh
                    | Some other \<Rightarrow> failed_refresh)))"

section \<open>Concrete inputs\<close>

text \<open>
  The join link of the invitation template (the one built into \<^verbatim>\<open>main.py\<close>), with the
  identifiers \<open>ABC123\<close>, \<open>TENANT1\<close> and \<open>ORG1\<close>, and two invitations that carry it: one
  with the anchor alone, one with the two labelled spans as well. \<open>sample_bs\<close> answers for
  these two documents as the HTML parser does, rejects the malformed declaration
  \<open>rejected_html\<close> as the HTML parser does, and finds nothing in any other input.
\<close>

definition sample_link :: string where
  "sample_link = ''https://teams.microsoft.com/l/meetup-join/19%3ameeting_ABC123%40thread.v2/0''
     @ ''?context=%7b%22Tid%22%3a%22TENANT1%22%2c%22Oid%22%3a%22ORG1%22%7d''"

definition anchor_html :: string where
  "anchor_html = ''<a href='' @ [CHR 0x22] @ sample_link @ [CHR 0x22] @ '' id='' @ [CHR 0x22]
     @ ''meet_invite_block.action.join_link'' @ [CHR 0x22] @ ''>Join the meeting now</a>''"

definition spans_html :: string where
  "spans_html = ''<div><span>Meeting ID: </span><span>123 456 789 012 34</span></div>''
     @ ''<div><span>Passcode: </span><span>EXAMPLE</span></div>''"

definition join_tag :: tag where
  "join_tag = Tag ''Join the meeting now''
     [(''href'', sample_link), (''id'', ''meet_invite_block.action.join_link'')] None"

definition anchor_soup :: soup where
  "anchor_soup =
     \<lparr>find_span_string = (\<lambda>p. None),
      find_a_id = (\<lambda>i. if i = ''meet_invite_block.action.join_link'' then Some join_tag else None)\<rparr>"

definition full_soup :: soup where
  "full_soup =
     \<lparr>find_span_string = (\<lambda>p.
        if p = ''Meeting ID:''
        then Some (Tag ''Meeting ID:'' [] (Some (Tag ''123 456 789 012 34'' [] None)))
        else if p = ''Passcode:''
        then Some (Tag ''Passcode:'' [] (Some (Tag ''EXAMPLE'' [] None)))
        else None),
      find_a_id = (\<lambda>i. if i = ''meet_invite_block.action.join_link'' then Some join_tag else None)\<rparr>"

definition empty_soup :: soup where
  "empty_soup = \<lparr>find_span_string = (\<lambda>p. None), find_a_id = (\<lambda>i. None)\<rparr>"

definition rejected_html :: string where
  "rejected_html = ''<![foo[bar]]>''"

definition sample_bs :: "string \<Rightarrow> error + soup" where
  "sample_bs h =
     (if h = anchor_html then Inr anchor_soup
      else if h = anchor_html @ spans_html then Inr full_soup
      else if h = rejected_html then Inl ParserRejectedMarkup
      else Inr empty_soup)"

text \<open>A percent-decoder for the three escapes of the sample link, standing for \<^verbatim>\<open>unquote\<close>.\<close>

fun sample_unquote :: "string \<Rightarrow> string" where
  "sample_unquote (a # b # c # rest) =
     (if [a, b, c] = ''%3a'' then CHR '':'' # sample_unquote rest
      else if [a, b, c] = ''%40'' then CHR ''@'' # sample_unquote rest
      else if [a, b, c] = ''%22'' then CHR 0x22 # sample_unquote rest
      else a # sample_unquote (b # c # rest))"
| "sample_unquote s = s"

text \<open>
  An environment that sets \<^verbatim>\<open>GRAPH_API_ENDPOINT\<close> to another endpoint, a splitter at
  single spaces standing for \<^verbatim>\<open>str.split\<close>, and an identity library whose password
  grant returns the token \<open>TOKEN1\<close> and whose code grant returns \<open>TOKEN2\<close>.
\<close>

fun split_words :: "string \<Rightarrow> string \<Rightarrow> string list" where
  "split_words w [] = (if w = [] then [] else [w])"
| "split_words w (ch # rest) =
     (if ch = CHR '' '' then (if w = [] then split_words [] rest else w # split_words [] rest)
      else split_words (w @ [ch]) rest)"

definition sample_env :: "string \<rightharpoonup> string" where
  "sample_env = map_of
     [(''TENANT_ID'', ''TENANT1''), (''CLIENT_ID'', ''app-id''), (''CLIENT_SECRET'', ''app-secret''),
      (''USERNAME'', ''organizer@example.com''), (''PASSWORD'', ''password''),
      (''GRAPH_API_ENDPOINT'', ''https://graph.example.test/beta'')]"

definition sample_config :: config where
  "sample_config = Config (split_words []) sample_env"

definition sample_app :: msal_app where
  "sample_app =
     \<lparr>acquire_token_by_username_password =
        (\<lambda>u p sc. Result [(''token_type'', ''Bearer''), (''access_token'', ''TOKEN1'')]),
      acquire_token_by_authorization_code =
        (\<lambda>code sc ru. Result [(''token_type'', ''Bearer''), (''access_token'', ''TOKEN2'')])\<rparr>"

definition sample_msal :: "string \<Rightarrow> string \<Rightarrow> string \<Rightarrow> error + msal_app" where
  "sample_msal client_id client_credential auth_url = Inr sample_app"

text \<open>The authenticator that \<open>GraphAuth sample_msal sample_config\<close> constructs.\<close>

definition sample_auth :: graph_auth where
  "sample_auth = \<lparr>auth_config = sample_config, app = sample_app, access_token = None\<rparr>"

text \<open>An authenticator whose identity provider refuses both grants.\<close>

definition refusing_auth :: graph_auth where
  "refusing_auth =
     \<lparr>auth_config = sample_config,
      app = \<lparr>acquire_token_by_username_password = (\<lambda>u p sc. Result [(''error'', ''invalid_grant'')]),
             acquire_token_by_authorization_code = (\<lambda>code sc ru. Raises ''timed out'')\<rparr>,
      access_token = None\<rparr>"

text \<open>
  A state with nothing sent and nothing written, and the state after the authenticator
  at reference 0 has obtained a token by the password grant.
\<close>

definition state0 :: state where
  "state0 = \<lparr>auths = (\<lambda>r. sample_auth), next_ref = 0, sent = [], files = Map.empty\<rparr>"

definition password_state :: state where
  "password_state =
     state0\<lparr>auths := (auths state0)(0 := snd (authenticate_with_password (auths state0 0))),
            next_ref := 1\<rparr>"

text \<open>The same state after the same authenticator has been given a new token by the code grant.\<close>

definition code_state :: state where
  "code_state =
     password_state\<lparr>auths := (auths password_state)
        (0 := snd (authenticate_with_code (auths password_state 0) ''CODE''))\<rparr>"

text \<open>The client built in \<open>password_state\<close> (the placeholder is never reached).\<close>

definition password_client :: graph_client where
  "password_client =
     (case GraphClient password_state 0 of
        Inr c \<Rightarrow> c
      | Inl e \<Rightarrow> \<lparr>auth = 0, base_url = [], headers = Map.empty\<rparr>)"

text \<open>
  A server that knows the meeting \<open>19:meeting_ABC123\<close> under the plain URL: it has two
  attendance reports, \<open>R1\<close> with three records and \<open>R2\<close> with none. A second server
  answers \<open>404\<close> to the plain URL of the meeting and \<open>200\<close> to the quoted one.
\<close>

definition ok_response :: "json \<Rightarrow> response option" where
  "ok_response j = Some \<lparr>status_code = 200, resp_text = [], json_body = Some j\<rparr>"

definition not_found :: "response option" where
  "not_found = Some \<lparr>status_code = 404, resp_text = ''Not Found'', json_body = None\<rparr>"

definition attendee :: "string \<Rightarrow> json" where
  "attendee n =
     JObj [(''identity'', JObj [(''emailAddress'', JObj [(''name'', JStr n)])]),
           (''totalAttendanceInSeconds'', JNum 600)]"

definition sample_net :: network where
  "sample_net hist rq =
     (let u = req_url rq; b = ''https://graph.microsoft.com/v1.0/me/onlineMeetings''
      in if u = b then ok_response (JObj [(''value'', JArr [JObj [(''id'', JStr ''M1'')]])])
         else if u = b @ ''/19:meeting_ABC123''
         then ok_response (JObj [(''id'', JStr ''M1'')])
         else if u = b @ ''/19:meeting_ABC123/attendanceReports''
         then ok_response (JObj [(''value'', JArr [JObj [(''id'', JStr ''R1'')],
                                                   JObj [(''id'', JStr ''R2'')]])])
         else if u = b @ ''/19:meeting_ABC123/attendanceReports/R1/attendanceRecords''
         then ok_response (JObj [(''value'', JArr [attendee ''Ann'', attendee ''Bob'',
                                                   attendee ''Cy''])])
         else if u = b @ ''/19:meeting_ABC123/attendanceReports/R2/attendanceRecords''
         then ok_response (JObj [(''value'', JArr [])])
         else not_found)"

definition fallback_net :: network where
  "fallback_net hist rq =
     (let u = req_url rq; b = ''https://graph.microsoft.com/v1.0/me/onlineMeetings''
      in if u = b @ ''/19:meeting_ABC123'' then not_found
         else if u = b @ ''('' @ [CHR 0x27] @ ''19:meeting_ABC123'' @ [CHR 0x27] @ '')''
         then ok_response (JObj [(''id'', JStr ''M1'')])
         else sample_net hist rq)"

text \<open>The URLs an operation requests when run by \<open>password_client\<close> in \<open>password_state\<close>.\<close>

definition requested_urls ::
  "(graph_client \<Rightarrow> state \<Rightarrow> (error + json) \<times> graph_client \<times> state) \<Rightarrow> string list" where
  "requested_urls operation =
     map req_url (sent (snd (snd (operation password_client password_state))))"

text \<open>The requests sent between two states.\<close>

definition issued :: "state \<Rightarrow> state \<Rightarrow> request list" where
  "issued st st' = drop (length (sent st)) (sent st')"

text \<open>A world around \<open>sample_net\<close> in which every directory and file can be written.\<close>

definition sample_world :: world where
  "sample_world =
     \<lparr>w_bs = sample_bs, w_config = sample_config, w_msal = sample_msal, w_net = sample_net,
      w_pystr = (\<lambda>j. ''?''), w_input = Some ''CODE'',
      w_strftime = ''20240101_120000'', w_isoformat = ''2024-01-01T12:00:00'',
      w_makedirs_ok = (\<lambda>d. True), w_open_ok = (\<lambda>f. True)\<rparr>"

text \<open>
  A run of the refresh utility whose token endpoint answers with a new access token and
  no refresh token.
\<close>

definition sample_refresh_env :: refresh_env where
  "sample_refresh_env =
     \<lparr>rt_TENANT_ID = ''TENANT1'', rt_CLIENT_ID = ''app-id'', rt_CLIENT_SECRET = ''app-secret'',
      rt_SCOPE = ''Calendars.Read'',
      rt_post = (\<lambda>u form. Some \<lparr>status_code = 200, resp_text = [],
                   json_body = Some (JObj [(''token_type'', JStr ''Bearer''),
                                           (''expires_in'', JNum 3600),
                                           (''access_token'', JStr ''NEWTOKEN'')])\<rparr>),
      rt_pystr = (\<lambda>j. ''3600''),
      rt_open_ok = True\<rparr>"

section \<open>The assembly of the records, as specified\<close>

text \<open>
  The assembly of the records in the specification's words: fetch the records of each
  report in turn (\<open>fetch_each\<close> lists what the fetches returned, with the client and the
  state threaded as the loop threads them), and let each report contribute its records,
  a report without a list of records contributing none (\<open>records_of\<close>).
\<close>

fun fetch_each :: "world \<Rightarrow> graph_client \<Rightarrow> string \<Rightarrow> json list \<Rightarrow> state \<Rightarrow> json list" where
  "fetch_each w c mid [] st = []"
| "fetch_each w c mid (report # rest) st =
     (case py_get report ''id'' JNull of
        Inl e \<Rightarrow> []
      | Inr report_id \<Rightarrow>
          (case get_meeting_attendance_records (w_net w) (w_pystr w) c mid report_id st of
             (Inl e, c1, st1) \<Rightarrow> []
           | (Inr records, c1, st1) \<Rightarrow> records # fetch_each w c1 mid rest st1))"

definition records_of :: "json \<Rightarrow> json list" where
  "records_of j = (case j of JArr xs \<Rightarrow> xs | _ \<Rightarrow> [])"

definition is_dict :: "json \<Rightarrow> bool" where
  "is_dict j = (case j of JObj kvs \<Rightarrow> True | _ \<Rightarrow> False)"

definition none_or_list :: "json \<Rightarrow> bool" where
  "none_or_list j = (case j of JNull \<Rightarrow> True | JArr xs \<Rightarrow> True | _ \<Rightarrow> False)"

text \<open>
  The run of \<open>process_email_html\<close> with the password grant up to the point where the
  collection of reports is at hand: the reports, and the client and the state the loop
  starts from. \<open>None\<close> when the run does not get there.
\<close>

definition report_stage ::
  "world \<Rightarrow> string \<Rightarrow> state \<Rightarrow> (json list \<times> graph_client \<times> state) option" where
  "report_stage w mid st =
     (case GraphAuth (w_msal w) (w_config w) of
        Inl e \<Rightarrow> None
      | Inr new_auth \<Rightarrow>
          (let a = next_ref st;
               obj = snd (authenticate_with_password new_auth);
               st2 = st\<lparr>auths := (auths st)(a := obj), next_ref := Suc a\<rparr>
           in (case GraphClient st2 a of
                 Inl e \<Rightarrow> None
               | Inr client \<Rightarrow>
                   (case get_online_meeting_attendance_report (w_net w) client mid st2 of
                      (Inl e, c1, st3) \<Rightarrow> None
                    | (Inr rep, c1, st3) \<Rightarrow>
                        (case py_get rep ''value'' (JArr []) of
                           Inr (JArr reports) \<Rightarrow> Some (reports, c1, st3)
                         | _ \<Rightarrow> None)))))"

text \<open>The file name \<open>save_attendance_report\<close> builds for the display id \<open>m\<close>.\<close>

definition report_file :: "world \<Rightarrow> string \<Rightarrow> string" where
  "report_file w m =
     ''attendance_reports/attendance_'' @ map (\<lambda>ch. if ch = CHR '' '' then CHR ''_'' else ch) m
       @ ''_'' @ w_strftime w @ ''.json''"

text \<open>
  The client and the state from which the loop of the sample run starts (a run of
  \<open>sample_world\<close> on the invitation with both spans, from \<open>state0\<close>).
\<close>

definition loop_client :: graph_client where
  "loop_client =
     (case report_stage sample_world ''19:meeting_ABC123'' state0 of
        Some (rs, c, s) \<Rightarrow> c
      | None \<Rightarrow> password_client)"

definition loop_state :: state where
  "loop_state =
     (case report_stage sample_world ''19:meeting_ABC123'' state0 of
        Some (rs, c, s) \<Rightarrow> s
      | None \<Rightarrow> state0)"

section \<open>The meeting-info extractor\<close>

lemma match_run_at_nonempty: "match_run_at lit c s = Some g \<Longrightarrow> g \<noteq> []"
  by (auto simp: match_run_at_def Let_def split: if_splits)

lemma re_search_run_nonempty: "re_search_run lit c s = Some g \<Longrightarrow> g \<noteq> []"
proof (induction s)
  case Nil
  then show ?case by (simp add: match_run_at_nonempty)
next
  case (Cons x xs)
  then show ?case by (auto split: option.splits dest: match_run_at_nonempty)
qed

lemma meeting_id_step_eq:
  "extract_meeting_id_step sp i =
     Inr (case find_span_string sp ''Meeting ID:'' of
            None \<Rightarrow> i
          | Some label \<Rightarrow>
              (case tag_next_span label of
                 None \<Rightarrow> i
               | Some t \<Rightarrow> i\<lparr>meeting_id := Some (filter (\<lambda>ch. ch \<noteq> CHR '' '') (tag_text t))\<rparr>))"
  by (simp add: extract_meeting_id_step_def Let_def err_bind_def find_next_sibling_def
        get_text_def split: option.splits)

lemma passcode_step_eq:
  "extract_passcode_step sp i =
     Inr (case find_span_string sp ''Passcode:'' of
            None \<Rightarrow> i
          | Some label \<Rightarrow>
              (case tag_next_span label of
                 None \<Rightarrow> i
               | Some t \<Rightarrow> i\<lparr>passcode := Some (tag_text t)\<rparr>))"
  by (simp add: extract_passcode_step_def Let_def err_bind_def find_next_sibling_def
        get_text_def split: option.splits)

lemma join_link_step_eq:
  "extract_join_link_step sp i =
     Inr (case find_a_id sp ''meet_invite_block.action.join_link'' of
            None \<Rightarrow> i
          | Some t \<Rightarrow> parse_join_link (href_of t) (i\<lparr>join_link := Some (href_of t)\<rparr>))"
  by (simp add: extract_join_link_step_def Let_def err_bind_def tag_get_def href_of_def
        split: option.splits)

lemma parse_join_link_eq:
  "parse_join_link l i =
     i\<lparr>thread_id := (case re_search_run ''19%3ameeting_'' (CHR ''%'') l of
                       Some g \<Rightarrow> Some (''19:meeting_'' @ g) | None \<Rightarrow> thread_id i),
       tenant_id := (case re_search_greedy ''context=%7b%22Tid%22%3a%22'' (CHR 0x22) ''%22'' l of
                       Some g \<Rightarrow> Some g | None \<Rightarrow> tenant_id i),
       organizer_id := (case re_search_greedy ''%22Oid%22%3a%22'' (CHR 0x22) ''%22'' l of
                       Some g \<Rightarrow> Some g | None \<Rightarrow> organizer_id i)\<rparr>"
  by (simp add: parse_join_link_def Let_def split: option.splits)

lemma thread_id_of_extract:
  assumes "extract_meeting_info bs html_body = Inr info"
  shows "\<exists>sp. bs html_body = Inr sp
     \<and> thread_id info =
         (case find_a_id sp ''meet_invite_block.action.join_link'' of
            None \<Rightarrow> None
          | Some a \<Rightarrow>
              (case re_search_run ''19%3ameeting_'' (CHR ''%'') (href_of a) of
                 None \<Rightarrow> None
               | Some g \<Rightarrow> Some (''19:meeting_'' @ g)))"
proof (cases "bs html_body")
  case (Inl e)
  with assms show ?thesis
    by (simp add: extract_meeting_info_def err_bind_def)
next
  case (Inr sp)
  define m where "m = find_span_string sp ''Meeting ID:''"
  define p where "p = find_span_string sp ''Passcode:''"
  define a where "a = find_a_id sp ''meet_invite_block.action.join_link''"
  have "thread_id info =
         (case a of
            None \<Rightarrow> None
          | Some a \<Rightarrow>
              (case re_search_run ''19%3ameeting_'' (CHR ''%'') (href_of a) of
                 None \<Rightarrow> None
               | Some g \<Rightarrow> Some (''19:meeting_'' @ g)))"
    using assms
    unfolding extract_meeting_info_def Inr sum.case Let_def err_bind_def meeting_id_step_eq
      passcode_step_eq join_link_step_eq parse_join_link_eq
      m_def [symmetric] p_def [symmetric] a_def [symmetric]
    by (cases m; cases p; cases a) (auto split: option.splits)
  with Inr show ?thesis
    by (simp add: a_def)
qed

text \<open>
  C1. For the sample join link (fragment \<open>19%3ameeting_ABC123%40thread.v2\<close>, context
  parameter with \<open>Tid = TENANT1\<close> and \<open>Oid = ORG1\<close>) the extractor yields the thread id
  \<open>19:meeting_ABC123\<close> and the organizer id \<open>ORG1\<close>, but not the tenant id
  \<open>TENANT1\<close>: the class of the tenant pattern excludes the double quote only and so
  takes the encoded quotes \<open>%22\<close> as well; the group runs on to the last \<open>%22\<close> of the
  link, the one that closes the organizer id.
\<close>

theorem sample_link_tenant_id_greedy:
  "extract_meeting_info sample_bs anchor_html =
     Inr \<lparr>meeting_id = None, passcode = None, join_link = Some sample_link,
          thread_id = Some ''19:meeting_ABC123'', organizer_id = Some ''ORG1'',
          tenant_id = Some ''TENANT1%22%2c%22Oid%22%3a%22ORG1''\<rparr>"
  by code_simp


text \<open>
  C7. When the HTML parser accepts the input, \<open>extract_meeting_info\<close> returns a record and
  raises nothing (every method call is guarded by the test of its receiver). The record
  has all six fields, and a field whose label, sibling, anchor or pattern is absent is
  \<open>None\<close> (an anchor without \<open>href\<close> gives the empty join link). When the parser rejects
  the input, its exception leaves \<open>extract_meeting_info\<close>: the call of the parser is the
  first statement of the function and no handler surrounds it.
\<close>

theorem extract_meeting_info_total:
  "extract_meeting_info bs html_body =
     (case bs html_body of
        Inl e \<Rightarrow> Inl e
      | Inr sp \<Rightarrow>
          Inr (case find_a_id sp ''meet_invite_block.action.join_link'' of
                 None \<Rightarrow>
                   \<lparr>meeting_id = (case find_span_string sp ''Meeting ID:'' of
                        None \<Rightarrow> None
                      | Some label \<Rightarrow>
                          (case tag_next_span label of
                             None \<Rightarrow> None
                           | Some t \<Rightarrow> Some (filter (\<lambda>ch. ch \<noteq> CHR '' '') (tag_text t)))),
                    passcode = (case find_span_string sp ''Passcode:'' of
                        None \<Rightarrow> None
                      | Some label \<Rightarrow>
                          (case tag_next_span label of
                             None \<Rightarrow> None
                           | Some t \<Rightarrow> Some (tag_text t))),
                    join_link = None, thread_id = None, organizer_id = None, tenant_id = None\<rparr>
               | Some a \<Rightarrow>
                   \<lparr>meeting_id = (case find_span_string sp ''Meeting ID:'' of
                        None \<Rightarrow> None
                      | Some label \<Rightarrow>
                          (case tag_next_span label of
                             None \<Rightarrow> None
                           | Some t \<Rightarrow> Some (filter (\<lambda>ch. ch \<noteq> CHR '' '') (tag_text t)))),
                    passcode = (case find_span_string sp ''Passcode:'' of
                        None \<Rightarrow> None
                      | Some label \<Rightarrow>
                          (case tag_next_span label of
                             None \<Rightarrow> None
                           | Some t \<Rightarrow> Some (tag_text t))),
                    join_link = Some (href_of a),
                    thread_id = (case re_search_run ''19%3ameeting_'' (CHR ''%'') (href_of a) of
                        None \<Rightarrow> None
                      | Some g \<Rightarrow> Some (''19:meeting_'' @ g)),
                    organizer_id =
                      re_search_greedy ''%22Oid%22%3a%22'' (CHR 0x22) ''%22'' (href_of a),
                    tenant_id =
                      re_search_greedy ''context=%7b%22Tid%22%3a%22'' (CHR 0x22) ''%22''
                        (href_of a)\<rparr>))"
proof (cases "bs html_body")
  case (Inl e)
  then show ?thesis
    by (simp add: extract_meeting_info_def err_bind_def)
next
  case (Inr sp)
  define m where "m = find_span_string sp ''Meeting ID:''"
  define p where "p = find_span_string sp ''Passcode:''"
  define a where "a = find_a_id sp ''meet_invite_block.action.join_link''"
  have "extract_meeting_info bs html_body =
     Inr (case a of
            None \<Rightarrow>
              \<lparr>meeting_id = (case m of
                   None \<Rightarrow> None
                 | Some label \<Rightarrow>
                     (case tag_next_span label of
                        None \<Rightarrow> None
                      | Some t \<Rightarrow> Some (filter (\<lambda>ch. ch \<noteq> CHR '' '') (tag_text t)))),
               passcode = (case p of
                   None \<Rightarrow> None
                 | Some label \<Rightarrow>
                     (case tag_next_span label of None \<Rightarrow> None | Some t \<Rightarrow> Some (tag_text t))),
               join_link = None, thread_id = None, organizer_id = None, tenant_id = None\<rparr>
          | Some a \<Rightarrow>
              \<lparr>meeting_id = (case m of
                   None \<Rightarrow> None
                 | Some label \<Rightarrow>
                     (case tag_next_span label of
                        None \<Rightarrow> None
                      | Some t \<Rightarrow> Some (filter (\<lambda>ch. ch \<noteq> CHR '' '') (tag_text t)))),
               passcode = (case p of
                   None \<Rightarrow> None
                 | Some label \<Rightarrow>
                     (case tag_next_span label of None \<Rightarrow> None | Some t \<Rightarrow> Some (tag_text t))),
               join_link = Some (href_of a),
               thread_id = (case re_search_run ''19%3ameeting_'' (CHR ''%'') (href_of a) of
                   None \<Rightarrow> None
                 | Some g \<Rightarrow> Some (''19:meeting_'' @ g)),
               organizer_id = re_search_greedy ''%22Oid%22%3a%22'' (CHR 0x22) ''%22'' (href_of a),
               tenant_id = re_search_greedy ''context=%7b%22Tid%22%3a%22'' (CHR 0x22) ''%22''
                             (href_of a)\<rparr>)"
    unfolding extract_meeting_info_def Inr sum.case Let_def err_bind_def meeting_id_step_eq
      passcode_step_eq join_link_step_eq parse_join_link_eq
      m_def [symmetric] p_def [symmetric] a_def [symmetric]
    by (cases m; cases p; cases a) (simp_all split: option.split)
  then show ?thesis
    by (simp only: Inr sum.case m_def p_def a_def)
qed

text \<open>
  The extractor does raise on input the parser rejects: on the malformed declaration
  \<open>rejected_html\<close> the parser raises and \<open>extract_meeting_info\<close> passes the exception on.
\<close>

theorem parser_rejection_leaves_extractor:
  "extract_meeting_info sample_bs rejected_html = Inl ParserRejectedMarkup"
  by code_simp

text \<open>
  C8. A thread id returned by \<open>extract_meeting_info\<close>, and every result of
  \<open>extract_meeting_id_from_url\<close>, is the prefix \<open>19:meeting_\<close> followed by a non-empty
  string.
\<close>

theorem thread_id_form:
  "(\<forall>info t. extract_meeting_info bs html_body = Inr info \<longrightarrow> thread_id info = Some t
       \<longrightarrow> (\<exists>x. x \<noteq> [] \<and> t = ''19:meeting_'' @ x))
   \<and> (\<forall>t. extract_meeting_id_from_url unquote join_url = Some t
       \<longrightarrow> (\<exists>x. x \<noteq> [] \<and> t = ''19:meeting_'' @ x))"
proof (intro conjI allI impI)
  fix info t
  assume run: "extract_meeting_info bs html_body = Inr info" and tid: "thread_id info = Some t"
  from thread_id_of_extract [OF run] tid
  obtain l g where "re_search_run ''19%3ameeting_'' (CHR ''%'') l = Some g"
      and "t = ''19:meeting_'' @ g"
    by (auto split: option.splits)
  then show "\<exists>x. x \<noteq> [] \<and> t = ''19:meeting_'' @ x"
    using re_search_run_nonempty by blast
next
  fix t
  assume "extract_meeting_id_from_url unquote join_url = Some t"
  then obtain g where "re_search_run ''19:meeting_'' (CHR ''@'') (unquote join_url) = Some g"
      and "t = ''19:meeting_'' @ g"
    by (auto simp: extract_meeting_id_from_url_def Let_def split: option.splits)
  then show "\<exists>x. x \<noteq> [] \<and> t = ''19:meeting_'' @ x"
    using re_search_run_nonempty by blast
qed

theorem thread_id_form_witness:
  "(\<exists>info. extract_meeting_info sample_bs anchor_html = Inr info
      \<and> thread_id info = Some ''19:meeting_ABC123'')
   \<and> extract_meeting_id_from_url sample_unquote sample_link = Some ''19:meeting_ABC123''
   \<and> (\<exists>x. x \<noteq> [] \<and> ''19:meeting_ABC123'' = ''19:meeting_'' @ x)"
proof -
  have a: "extract_meeting_info sample_bs anchor_html =
     Inr \<lparr>meeting_id = None, passcode = None, join_link = Some sample_link,
          thread_id = Some ''19:meeting_ABC123'', organizer_id = Some ''ORG1'',
          tenant_id = Some ''TENANT1%22%2c%22Oid%22%3a%22ORG1''\<rparr>"
    by code_simp
  have b: "extract_meeting_id_from_url sample_unquote sample_link = Some ''19:meeting_ABC123''"
    by code_simp
  show ?thesis
    using thread_id_form [of sample_bs anchor_html sample_unquote sample_link] a b
    by auto
qed

section \<open>The authenticator\<close>

lemma store_grant_cases:
  "store_grant pre a g = (r, a') \<Longrightarrow>
     (case r of
        Inl e \<Rightarrow> a' = a
      | Inr tok \<Rightarrow> a' = a\<lparr>access_token := Some tok\<rparr>
          \<and> (\<exists>res. g = Result res \<and> map_of res ''access_token'' = Some tok))"
  by (auto simp: store_grant_def Let_def split: grant.splits option.splits)

lemma GraphAuth_fresh: "GraphAuth msal cfg = Inr a \<Longrightarrow> access_token a = None"
  by (auto simp: GraphAuth_def err_bind_def split: sum.splits)

text \<open>
  C5. \<open>get_access_token\<close> raises the not-authenticated error on a newly constructed
  authenticator, and on any authenticator that holds no token; a failed password grant
  leaves the authenticator as it was, so that this stays so until a grant succeeds. After
  a successful password grant \<open>get_access_token\<close> returns exactly the token the grant
  returned, the \<open>access_token\<close> entry of its result. A token is a non-empty string: the
  access token of a token response is one or more characters.
\<close>

theorem get_access_token_after_password_grant:
  "(\<forall>a0. GraphAuth msal cfg = Inr a0 \<longrightarrow> get_access_token a0 = Inl NotAuthenticated)
   \<and> (access_token b = None \<longrightarrow> get_access_token b = Inl NotAuthenticated)
   \<and> (\<forall>e b'. authenticate_with_password b = (Inl e, b') \<longrightarrow> b' = b)
   \<and> (\<forall>tok a'. authenticate_with_password a = (Inr tok, a') \<longrightarrow> tok \<noteq> [] \<longrightarrow>
         get_access_token a' = Inr tok
         \<and> (\<exists>res. acquire_token_by_username_password (app a) (USERNAME (auth_config a))
                     (PASSWORD (auth_config a)) (SCOPE (auth_config a)) = Result res
                \<and> map_of res ''access_token'' = Some tok))"
proof (intro conjI allI impI)
  fix a0
  assume "GraphAuth msal cfg = Inr a0"
  then show "get_access_token a0 = Inl NotAuthenticated"
    by (simp add: get_access_token_def GraphAuth_fresh)
next
  assume "access_token b = None"
  then show "get_access_token b = Inl NotAuthenticated"
    by (simp add: get_access_token_def)
next
  fix e b'
  assume "authenticate_with_password b = (Inl e, b')"
  then show "b' = b"
    unfolding authenticate_with_password_def by (auto dest: store_grant_cases)
next
  fix tok a'
  assume run: "authenticate_with_password a = (Inr tok, a')" and ne: "tok \<noteq> []"
  from run have *: "a' = a\<lparr>access_token := Some tok\<rparr>
      \<and> (\<exists>res. acquire_token_by_username_password (app a) (USERNAME (auth_config a))
                  (PASSWORD (auth_config a)) (SCOPE (auth_config a)) = Result res
             \<and> map_of res ''access_token'' = Some tok)"
    unfolding authenticate_with_password_def by (auto dest: store_grant_cases)
  with ne show "get_access_token a' = Inr tok"
    by (simp add: get_access_token_def)
  from * show "\<exists>res. acquire_token_by_username_password (app a) (USERNAME (auth_config a))
                  (PASSWORD (auth_config a)) (SCOPE (auth_config a)) = Result res
             \<and> map_of res ''access_token'' = Some tok"
    by blast
qed

theorem get_access_token_after_password_grant_witness:
  "GraphAuth sample_msal sample_config = Inr sample_auth
   \<and> get_access_token sample_auth = Inl NotAuthenticated
   \<and> access_token refusing_auth = None
   \<and> get_access_token refusing_auth = Inl NotAuthenticated
   \<and> authenticate_with_password refusing_auth =
       (Inl (AuthFailed ''Failed to authenticate: Authentication failed: invalid_grant''),
        refusing_auth)
   \<and> fst (authenticate_with_password sample_auth) = Inr ''TOKEN1''
   \<and> get_access_token (snd (authenticate_with_password sample_auth)) = Inr ''TOKEN1''"
proof -
  have new: "GraphAuth sample_msal sample_config = Inr sample_auth"
    by (simp add: GraphAuth_def err_bind_def sample_msal_def sample_auth_def)
  have none: "access_token refusing_auth = None"
    by (simp add: refusing_auth_def)
  have refused: "fst (authenticate_with_password refusing_auth) =
      Inl (AuthFailed ''Failed to authenticate: Authentication failed: invalid_grant'')"
    by (simp add: authenticate_with_password_def store_grant_def refusing_auth_def)
  then have failed: "authenticate_with_password refusing_auth =
      (Inl (AuthFailed ''Failed to authenticate: Authentication failed: invalid_grant''),
       snd (authenticate_with_password refusing_auth))"
    by (metis prod.collapse)
  have t2: "fst (authenticate_with_password sample_auth) = Inr ''TOKEN1''"
    by (simp add: authenticate_with_password_def store_grant_def sample_auth_def sample_app_def)
  then have run: "authenticate_with_password sample_auth =
      (Inr ''TOKEN1'', snd (authenticate_with_password sample_auth))"
    by (metis prod.collapse)
  have ne: "''TOKEN1'' \<noteq> []"
    by simp
  note T = get_access_token_after_password_grant
    [of sample_msal sample_config refusing_auth sample_auth]
  from T new have t1: "get_access_token sample_auth = Inl NotAuthenticated"
    by blast
  from T none have t0: "get_access_token refusing_auth = Inl NotAuthenticated"
    by blast
  from T failed have same: "snd (authenticate_with_password refusing_auth) = refusing_auth"
    by blast
  from T run ne have t3: "get_access_token (snd (authenticate_with_password sample_auth)) =
      Inr ''TOKEN1''"
    by blast
  from new none t0 t1 t2 t3 failed same show ?thesis
    by simp
qed

section \<open>The API client\<close>

lemma refresh_headers_Inr:
  "get_access_token (auths st (auth c)) = Inr tok \<Longrightarrow>
     refresh_headers st c = Inr (c\<lparr>headers := (headers c)(''Authorization'' \<mapsto> ''Bearer '' @ tok)\<rparr>)"
  by (simp add: refresh_headers_def err_bind_def)

lemma meeting_lookup_sent:
  "\<exists>new. snd (meeting_lookup net c mid st) = st\<lparr>sent := sent st @ new\<rparr> \<and> new \<noteq> []
      \<and> (\<forall>rq\<in>set new. req_headers rq = headers c)"
proof (cases "net (sent st) (get_request c (meeting_url c mid) [])")
  case None
  then show ?thesis
    by (intro exI [of _ "[get_request c (meeting_url c mid) []]"])
      (simp add: meeting_lookup_def requests_get_def get_request_def)
next
  case (Some resp1)
  show ?thesis
  proof (cases "status_code resp1 = 404")
    case True
    with Some show ?thesis
      by (intro exI [of _ "[get_request c (meeting_url c mid) [],
                           get_request c (quoted_meeting_url c mid) []]"])
        (simp add: meeting_lookup_def requests_get_def get_request_def)
  next
    case False
    with Some show ?thesis
      by (intro exI [of _ "[get_request c (meeting_url c mid) []]"])
        (simp add: meeting_lookup_def requests_get_def get_request_def)
  qed
qed

lemma reports_lookup_sent:
  "snd (reports_lookup net c mid st) = st\<lparr>sent := sent st @ [get_request c (reports_url c mid) []]\<rparr>"
  by (simp add: reports_lookup_def requests_get_def split: option.split)

lemma attendance_report_try_sent:
  "\<exists>new. snd (attendance_report_try net c mid st) = st\<lparr>sent := sent st @ new\<rparr> \<and> new \<noteq> []
      \<and> (\<forall>rq\<in>set new. req_headers rq = headers c)"
proof -
  obtain new where new: "snd (meeting_lookup net c mid st) = st\<lparr>sent := sent st @ new\<rparr>"
      "new \<noteq> []" "\<forall>rq\<in>set new. req_headers rq = headers c"
    using meeting_lookup_sent by blast
  obtain r2 where r2: "meeting_lookup net c mid st = (r2, st\<lparr>sent := sent st @ new\<rparr>)"
    using new(1) by (metis prod.collapse)
  let ?r = "get_request c (reports_url c mid) []"
  have "snd (attendance_report_try net c mid st) = st\<lparr>sent := sent st @ new\<rparr>
      \<or> snd (attendance_report_try net c mid st) = st\<lparr>sent := sent st @ (new @ [?r])\<rparr>"
    by (simp add: attendance_report_try_def r2 reports_lookup_sent split: option.split)
  moreover have "\<forall>rq\<in>set (new @ [?r]). req_headers rq = headers c"
    using new(3) by (simp add: get_request_def)
  ultimately show ?thesis
    using new(2,3) by (metis append_is_Nil_conv)
qed

lemma issued_append: "issued st (st\<lparr>sent := sent st @ new\<rparr>) = new"
  by (simp add: issued_def)

lemma report_issued:
  assumes "get_access_token (auths st (auth c)) = Inr tok"
  shows "issued st (snd (snd (get_online_meeting_attendance_report net c mid st))) \<noteq> []
     \<and> (\<forall>rq\<in>set (issued st (snd (snd (get_online_meeting_attendance_report net c mid st)))).
          req_headers rq ''Authorization'' = Some (''Bearer '' @ tok))"
proof -
  let ?c1 = "c\<lparr>headers := (headers c)(''Authorization'' \<mapsto> ''Bearer '' @ tok)\<rparr>"
  obtain new where new: "snd (attendance_report_try net ?c1 mid st) = st\<lparr>sent := sent st @ new\<rparr>"
      "new \<noteq> []" "\<forall>rq\<in>set new. req_headers rq = headers ?c1"
    using attendance_report_try_sent by blast
  have "snd (snd (get_online_meeting_attendance_report net c mid st)) = st\<lparr>sent := sent st @ new\<rparr>"
    using new(1)
    by (simp add: get_online_meeting_attendance_report_def refresh_headers_Inr [OF assms]
          case_prod_unfold)
  with new show ?thesis by (simp add: issued_append)
qed

lemma records_issued:
  assumes "get_access_token (auths st (auth c)) = Inr tok"
  shows "issued st (snd (snd (get_meeting_attendance_records net pystr c mid rid st))) \<noteq> []
     \<and> (\<forall>rq\<in>set (issued st (snd (snd (get_meeting_attendance_records net pystr c mid rid st)))).
          req_headers rq ''Authorization'' = Some (''Bearer '' @ tok))"
  by (simp add: get_meeting_attendance_records_def refresh_headers_Inr [OF assms]
        requests_get_def get_request_def issued_def)

lemma list_issued:
  assumes "get_access_token (auths st (auth c)) = Inr tok"
  shows "issued st (snd (snd (list_online_meetings net c q st))) \<noteq> []
     \<and> (\<forall>rq\<in>set (issued st (snd (snd (list_online_meetings net c q st)))).
          req_headers rq ''Authorization'' = Some (''Bearer '' @ tok))"
  by (simp add: list_online_meetings_def refresh_headers_Inr [OF assms]
        requests_get_def get_request_def issued_def Let_def)

text \<open>
  C9. Whatever headers the client holds, each of the three operations sends at least one
  request when the authenticator it refers to holds a token, and every request it sends
  carries that token, the current one, in its \<open>Authorization\<close> header.
\<close>

theorem authorization_is_current_token:
  assumes "get_access_token (auths st (auth c)) = Inr tok"
  shows "(issued st (snd (snd (get_online_meeting_attendance_report net c mid st))) \<noteq> []
     \<and> (\<forall>rq\<in>set (issued st (snd (snd (get_online_meeting_attendance_report net c mid st)))).
          req_headers rq ''Authorization'' = Some (''Bearer '' @ tok)))
   \<and> (issued st (snd (snd (get_meeting_attendance_records net pystr c mid rid st))) \<noteq> []
     \<and> (\<forall>rq\<in>set (issued st (snd (snd (get_meeting_attendance_records net pystr c mid rid st)))).
          req_headers rq ''Authorization'' = Some (''Bearer '' @ tok)))
   \<and> (issued st (snd (snd (list_online_meetings net c q st))) \<noteq> []
     \<and> (\<forall>rq\<in>set (issued st (snd (snd (list_online_meetings net c q st)))).
          req_headers rq ''Authorization'' = Some (''Bearer '' @ tok)))"
  using report_issued [OF assms] records_issued [OF assms] list_issued [OF assms] by blast

theorem authorization_is_current_token_witness:
  "headers password_client ''Authorization'' = Some ''Bearer TOKEN1''
   \<and> get_access_token (auths code_state (auth password_client)) = Inr ''TOKEN2''
   \<and> issued code_state (snd (snd (list_online_meetings sample_net password_client None code_state))) \<noteq> []
   \<and> list_all (\<lambda>rq. req_headers rq ''Authorization'' = Some ''Bearer TOKEN2'')
        (issued code_state (snd (snd (list_online_meetings sample_net password_client None code_state))))
   \<and> list_all (\<lambda>rq. req_headers rq ''Authorization'' = Some ''Bearer TOKEN2'')
        (issued code_state (snd (snd (get_online_meeting_attendance_report sample_net
           password_client ''19:meeting_ABC123'' code_state))))"
proof -
  have old: "headers password_client ''Authorization'' = Some ''Bearer TOKEN1''"
    by code_simp
  have cur: "get_access_token (auths code_state (auth password_client)) = Inr ''TOKEN2''"
    by code_simp
  note T = authorization_is_current_token [OF cur, of sample_net "''19:meeting_ABC123''"
      "\<lambda>j. ''?''" "JStr ''R1''" None]
  from T old cur show ?thesis
    by (simp add: list_all_iff)
qed

text \<open>
  C3. When the plain-id GET of the meeting answers 404 and the quoted-id GET that follows
  answers 200 with a JSON body, the method sends exactly three requests: the plain one,
  the quoted one (once), and a GET of the attendance reports under the plain-id URL. It
  returns the parsed body of that third response when its status is 200, and \<open>None\<close>
  otherwise; the body of the quoted-id response is read and dropped.
\<close>

theorem quoted_fallback_once:
  assumes hdr: "refresh_headers st c = Inr c1"
    and plain: "net (sent st) (get_request c1 (meeting_url c1 mid) []) = Some r1"
      "status_code r1 = 404"
    and quoted: "net (sent st @ [get_request c1 (meeting_url c1 mid) []])
                   (get_request c1 (quoted_meeting_url c1 mid) []) = Some r2"
      "status_code r2 = 200" "json_body r2 = Some meeting_data"
  shows "get_online_meeting_attendance_report net c mid st =
     (Inr (case net (sent st @ [get_request c1 (meeting_url c1 mid) [],
                                get_request c1 (quoted_meeting_url c1 mid) []])
                  (get_request c1 (reports_url c1 mid) []) of
             None \<Rightarrow> JNull
           | Some r3 \<Rightarrow>
               if status_code r3 = 200
               then (case json_body r3 of None \<Rightarrow> JNull | Some j \<Rightarrow> j)
               else JNull),
      c1,
      st\<lparr>sent := sent st @ [get_request c1 (meeting_url c1 mid) [],
                            get_request c1 (quoted_meeting_url c1 mid) [],
                            get_request c1 (reports_url c1 mid) []]\<rparr>)
   \<and> length (filter (\<lambda>rq. req_url rq = quoted_meeting_url c1 mid)
        [get_request c1 (meeting_url c1 mid) [],
         get_request c1 (quoted_meeting_url c1 mid) [],
         get_request c1 (reports_url c1 mid) []]) = 1"
proof
  show "get_online_meeting_attendance_report net c mid st =
     (Inr (case net (sent st @ [get_request c1 (meeting_url c1 mid) [],
                                get_request c1 (quoted_meeting_url c1 mid) []])
                  (get_request c1 (reports_url c1 mid) []) of
             None \<Rightarrow> JNull
           | Some r3 \<Rightarrow>
               if status_code r3 = 200
               then (case json_body r3 of None \<Rightarrow> JNull | Some j \<Rightarrow> j)
               else JNull),
      c1,
      st\<lparr>sent := sent st @ [get_request c1 (meeting_url c1 mid) [],
                            get_request c1 (quoted_meeting_url c1 mid) [],
                            get_request c1 (reports_url c1 mid) []]\<rparr>)"
    using plain quoted
    by (simp add: get_online_meeting_attendance_report_def hdr attendance_report_try_def
          meeting_lookup_def reports_lookup_def requests_get_def split: option.splits)
next
  have "meeting_url c1 mid \<noteq> quoted_meeting_url c1 mid"
    by (simp add: meeting_url_def quoted_meeting_url_def)
  moreover have "reports_url c1 mid \<noteq> quoted_meeting_url c1 mid"
    by (simp add: reports_url_def quoted_meeting_url_def)
  ultimately show "length (filter (\<lambda>rq. req_url rq = quoted_meeting_url c1 mid)
        [get_request c1 (meeting_url c1 mid) [],
         get_request c1 (quoted_meeting_url c1 mid) [],
         get_request c1 (reports_url c1 mid) []]) = 1"
    by (simp add: get_request_def)
qed

theorem quoted_fallback_once_witness:
  "map_option status_code (fallback_net (sent password_state)
      (get_request password_client (meeting_url password_client ''19:meeting_ABC123'') [])) = Some 404
   \<and> map req_url (sent (snd (snd (get_online_meeting_attendance_report fallback_net
        password_client ''19:meeting_ABC123'' password_state)))) =
      [''https://graph.microsoft.com/v1.0/me/onlineMeetings/19:meeting_ABC123'',
       ''https://graph.microsoft.com/v1.0/me/onlineMeetings('' @ [CHR 0x27] @ ''19:meeting_ABC123''
          @ [CHR 0x27] @ '')'',
       ''https://graph.microsoft.com/v1.0/me/onlineMeetings/19:meeting_ABC123/attendanceReports'']
   \<and> fst (get_online_meeting_attendance_report fallback_net password_client
        ''19:meeting_ABC123'' password_state) =
      Inr (JObj [(''value'', JArr [JObj [(''id'', JStr ''R1'')], JObj [(''id'', JStr ''R2'')]])])"
proof -
  let ?mid = "''19:meeting_ABC123''"
  let ?c1 = "password_client\<lparr>headers := (headers password_client)
               (''Authorization'' \<mapsto> ''Bearer '' @ ''TOKEN1'')\<rparr>"
  let ?r1 = "\<lparr>status_code = 404, resp_text = ''Not Found'', json_body = None\<rparr>"
  let ?r2 = "\<lparr>status_code = 200, resp_text = [], json_body = Some (JObj [(''id'', JStr ''M1'')])\<rparr>"
  have tok: "get_access_token (auths password_state (auth password_client)) = Inr ''TOKEN1''"
    by code_simp
  have hdr: "refresh_headers password_state password_client = Inr ?c1"
    by (rule refresh_headers_Inr [OF tok])
  have p1: "fallback_net (sent password_state) (get_request ?c1 (meeting_url ?c1 ?mid) []) = Some ?r1"
    by code_simp
  have p2: "status_code ?r1 = 404"
    by simp
  have q1: "fallback_net (sent password_state @ [get_request ?c1 (meeting_url ?c1 ?mid) []])
              (get_request ?c1 (quoted_meeting_url ?c1 ?mid) []) = Some ?r2"
    by code_simp
  have q2: "status_code ?r2 = 200" and q3: "json_body ?r2 = Some (JObj [(''id'', JStr ''M1'')])"
    by simp_all
  note T = quoted_fallback_once [OF hdr p1 p2 q1 q2 q3, THEN conjunct1]
  have s0: "map_option status_code (fallback_net (sent password_state)
      (get_request password_client (meeting_url password_client ''19:meeting_ABC123'') [])) = Some 404"
    by code_simp
  have val: "(case fallback_net (sent password_state @ [get_request ?c1 (meeting_url ?c1 ?mid) [],
                                get_request ?c1 (quoted_meeting_url ?c1 ?mid) []])
                  (get_request ?c1 (reports_url ?c1 ?mid) []) of
             None \<Rightarrow> JNull
           | Some r3 \<Rightarrow>
               if status_code r3 = 200
               then (case json_body r3 of None \<Rightarrow> JNull | Some j \<Rightarrow> j)
               else JNull)
      = JObj [(''value'', JArr [JObj [(''id'', JStr ''R1'')], JObj [(''id'', JStr ''R2'')]])]"
    by code_simp
  have urls: "map req_url (sent password_state @ [get_request ?c1 (meeting_url ?c1 ?mid) [],
                            get_request ?c1 (quoted_meeting_url ?c1 ?mid) [],
                            get_request ?c1 (reports_url ?c1 ?mid) []]) =
      [''https://graph.microsoft.com/v1.0/me/onlineMeetings/19:meeting_ABC123'',
       ''https://graph.microsoft.com/v1.0/me/onlineMeetings('' @ [CHR 0x27] @ ''19:meeting_ABC123''
          @ [CHR 0x27] @ '')'',
       ''https://graph.microsoft.com/v1.0/me/onlineMeetings/19:meeting_ABC123/attendanceReports'']"
    by code_simp
  show ?thesis
    unfolding T using s0 val urls by simp
qed

text \<open>
  The body of the quoted-id response is not what the method returns: on the second
  server the plain-id GET answers 404, the quoted-id GET answers 200 with the meeting,
  and the result is the collection of reports.
\<close>

theorem quoted_body_not_returned:
  "map_option status_code (fallback_net []
      (get_request password_client (meeting_url password_client ''19:meeting_ABC123'') [])) = Some 404
   \<and> map_option status_code (fallback_net
        [get_request password_client (meeting_url password_client ''19:meeting_ABC123'') []]
        (get_request password_client (quoted_meeting_url password_client ''19:meeting_ABC123'') []))
       = Some 200
   \<and> map_option json_body (fallback_net
        [get_request password_client (meeting_url password_client ''19:meeting_ABC123'') []]
        (get_request password_client (quoted_meeting_url password_client ''19:meeting_ABC123'') []))
       = Some (Some (JObj [(''id'', JStr ''M1'')]))
   \<and> fst (get_online_meeting_attendance_report fallback_net password_client
        ''19:meeting_ABC123'' password_state) \<noteq> Inr (JObj [(''id'', JStr ''M1'')])"
  by code_simp

text \<open>
  C2. With \<^verbatim>\<open>GRAPH_API_ENDPOINT\<close> set to \<open>https://graph.example.test/beta\<close> in the
  environment, the configuration holds that endpoint, and yet the client's base URL and
  every URL the three operations request start with \<open>https://graph.microsoft.com/v1.0\<close>:
  the constructor writes the constant and never reads the configuration.
\<close>

theorem configured_endpoint_ignored:
  "GRAPH_API_ENDPOINT (auth_config (auths password_state 0)) = ''https://graph.example.test/beta''
   \<and> base_url password_client = ''https://graph.microsoft.com/v1.0''
   \<and> requested_urls (\<lambda>c. get_online_meeting_attendance_report sample_net c ''19:meeting_ABC123'') =
       [''https://graph.microsoft.com/v1.0/me/onlineMeetings/19:meeting_ABC123'',
        ''https://graph.microsoft.com/v1.0/me/onlineMeetings/19:meeting_ABC123/attendanceReports'']
   \<and> requested_urls (\<lambda>c. get_meeting_attendance_records sample_net (\<lambda>j. ''?'') c
         ''19:meeting_ABC123'' (JStr ''R1'')) =
       [''https://graph.microsoft.com/v1.0/me/onlineMeetings/19:meeting_ABC123/attendanceReports/R1/attendanceRecords'']
   \<and> requested_urls (\<lambda>c. list_online_meetings sample_net c None) =
       [''https://graph.microsoft.com/v1.0/me/onlineMeetings'']"
  by code_simp

section \<open>The report assembler\<close>

lemma report_frame:
  assumes "get_online_meeting_attendance_report net c mid st = (r, c1, st1)"
  shows "auth c1 = auth c \<and> auths st1 = auths st \<and> files st1 = files st"
proof (cases "refresh_headers st c")
  case (Inl e)
  with assms show ?thesis
    by (simp add: get_online_meeting_attendance_report_def)
next
  case (Inr c2)
  obtain new where n: "snd (attendance_report_try net c2 mid st) = st\<lparr>sent := sent st @ new\<rparr>"
    using attendance_report_try_sent by blast
  from Inr have a: "auth c2 = auth c"
    by (auto simp: refresh_headers_def err_bind_def split: sum.splits)
  from assms Inr have "c1 = c2" and "st1 = snd (attendance_report_try net c2 mid st)"
    by (auto simp: get_online_meeting_attendance_report_def case_prod_unfold Let_def)
  with n a show ?thesis
    by simp
qed

lemma records_call:
  assumes "get_access_token (auths st (auth c)) = Inr tok"
  shows "\<exists>v c1 st1. get_meeting_attendance_records net pystr c mid rid st = (Inr v, c1, st1)
     \<and> auth c1 = auth c \<and> auths st1 = auths st \<and> files st1 = files st"
  by (simp add: get_meeting_attendance_records_def refresh_headers_Inr [OF assms]
        requests_get_def)

lemma collect_records_concat:
  assumes "\<forall>r\<in>set reports. is_dict r"
    and "get_access_token (auths st (auth c)) = Inr tok"
    and "\<forall>j\<in>set (fetch_each w c mid reports st). none_or_list j"
  shows "\<exists>st'. collect_records w c mid reports acc st =
            (Inr (acc @ concat (map records_of (fetch_each w c mid reports st))), st')
     \<and> files st' = files st
     \<and> length (fetch_each w c mid reports st) = length reports"
  using assms
proof (induction reports arbitrary: c st acc)
  case Nil
  then show ?case by simp
next
  case (Cons report rest)
  from Cons.prems(1) obtain kvs where rep: "report = JObj kvs"
    by (auto simp: is_dict_def split: json.splits)
  define rid where "rid = (case map_of kvs ''id'' of None \<Rightarrow> JNull | Some v \<Rightarrow> v)"
  have get: "py_get report ''id'' JNull = Inr rid"
    by (simp add: rep py_get_def rid_def)
  obtain v c1 st1 where call:
      "get_meeting_attendance_records (w_net w) (w_pystr w) c mid rid st = (Inr v, c1, st1)"
      and frame: "auth c1 = auth c" "auths st1 = auths st" "files st1 = files st"
    using records_call [OF Cons.prems(2)] by blast
  have each: "fetch_each w c mid (report # rest) st = v # fetch_each w c1 mid rest st1"
    by (simp add: get call)
  have v: "none_or_list v"
    and rest: "\<forall>j\<in>set (fetch_each w c1 mid rest st1). none_or_list j"
    using Cons.prems(3) unfolding each by simp_all
  from Cons.prems(1) have dicts: "\<forall>r\<in>set rest. is_dict r"
    by simp
  from Cons.prems(2) frame have tok: "get_access_token (auths st1 (auth c1)) = Inr tok"
    by simp
  have step: "collect_records w c mid (report # rest) acc st =
      collect_records w c1 mid rest (acc @ records_of v) st1"
    using v
    by (cases v) (simp_all add: get call none_or_list_def records_of_def py_truthy_def py_iter_def)
  from Cons.IH [OF dicts tok rest, of "acc @ records_of v"]
  obtain st' where "collect_records w c1 mid rest (acc @ records_of v) st1 =
       (Inr ((acc @ records_of v) @ concat (map records_of (fetch_each w c1 mid rest st1))), st')"
     and "files st' = files st1"
     and "length (fetch_each w c1 mid rest st1) = length rest"
    by blast
  then show ?case
    unfolding step each using frame by simp
qed


lemma report_stage_Some:
  assumes "report_stage w mid st = Some (reports, c1, st1)"
  shows "\<exists>fresh client rep tok.
       GraphAuth (w_msal w) (w_config w) = Inr fresh
     \<and> GraphClient
           (st\<lparr>auths := (auths st)(next_ref st := snd (authenticate_with_password fresh)),
               next_ref := Suc (next_ref st)\<rparr>) (next_ref st) = Inr client
     \<and> get_online_meeting_attendance_report (w_net w) client mid
           (st\<lparr>auths := (auths st)(next_ref st := snd (authenticate_with_password fresh)),
               next_ref := Suc (next_ref st)\<rparr>) = (Inr rep, c1, st1)
     \<and> py_get rep ''value'' (JArr []) = Inr (JArr reports)
     \<and> get_access_token (snd (authenticate_with_password fresh)) = Inr tok"
proof -
  from assms obtain fresh where fresh: "GraphAuth (w_msal w) (w_config w) = Inr fresh"
    by (cases "GraphAuth (w_msal w) (w_config w)") (simp_all add: report_stage_def)
  let ?obj = "snd (authenticate_with_password fresh)"
  let ?st2 = "st\<lparr>auths := (auths st)(next_ref st := ?obj), next_ref := Suc (next_ref st)\<rparr>"
  from assms have stage:
    "(case GraphClient ?st2 (next_ref st) of
        Inl e \<Rightarrow> None
      | Inr client \<Rightarrow>
          (case get_online_meeting_attendance_report (w_net w) client mid ?st2 of
             (Inl e, c1, st3) \<Rightarrow> None
           | (Inr rep, c1, st3) \<Rightarrow>
               (case py_get rep ''value'' (JArr []) of
                  Inr (JArr reports) \<Rightarrow> Some (reports, c1, st3)
                | _ \<Rightarrow> None))) = Some (reports, c1, st1)"
    by (simp add: report_stage_def fresh Let_def)
  then obtain client where client: "GraphClient ?st2 (next_ref st) = Inr client"
    by (cases "GraphClient ?st2 (next_ref st)") simp_all
  with stage obtain rep where
      call: "get_online_meeting_attendance_report (w_net w) client mid ?st2 = (Inr rep, c1, st1)"
      and val: "py_get rep ''value'' (JArr []) = Inr (JArr reports)"
    by (auto split: sum.splits prod.splits json.splits)
  from client obtain tok where tok: "get_access_token ?obj = Inr tok"
    by (auto simp: GraphClient_def err_bind_def split: sum.splits)
  from fresh client call val tok show ?thesis
    by blast
qed

lemma password_grant_succeeded:
  assumes "access_token a0 = None"
    and "get_access_token (snd (authenticate_with_password a0)) = Inr tok"
  shows "\<exists>t. fst (authenticate_with_password a0) = Inr t"
proof (cases "fst (authenticate_with_password a0)")
  case (Inl e)
  then have "authenticate_with_password a0 = (Inl e, snd (authenticate_with_password a0))"
    by (metis prod.collapse)
  then have "snd (authenticate_with_password a0) = a0"
    unfolding authenticate_with_password_def by (auto dest: store_grant_cases)
  with assms show ?thesis
    by (simp add: get_access_token_def)
next
  case (Inr t)
  then show ?thesis by blast
qed

lemma process_to_fetch:
  assumes "extract_meeting_info (w_bs w) html_body = Inr info"
    and "thread_id info = Some mid" and "mid \<noteq> []"
    and "GraphAuth (w_msal w) (w_config w) = Inr fresh"
    and "fst (authenticate_with_password fresh) = Inr t"
  shows "process_email_html w html_body True st =
     fetch_and_save w info (next_ref st)
       (st\<lparr>auths := (auths st)(next_ref st := snd (authenticate_with_password fresh)),
            next_ref := Suc (next_ref st)\<rparr>)"
proof -
  let ?obj = "snd (authenticate_with_password fresh)"
  have "process_email_html w html_body True st =
     fetch_and_save w info (next_ref st)
       (st\<lparr>next_ref := Suc (next_ref st), auths := (auths st)(next_ref st := ?obj)\<rparr>)"
    using assms
    by (simp add: process_email_html_def Let_def opt_json_def py_truthy_def case_prod_unfold)
  moreover have "st\<lparr>next_ref := Suc (next_ref st), auths := (auths st)(next_ref st := ?obj)\<rparr> =
      st\<lparr>auths := (auths st)(next_ref st := ?obj), next_ref := Suc (next_ref st)\<rparr>"
    by (rule state.equality) simp_all
  ultimately show ?thesis
    by simp
qed

text \<open>
  The two constructors that \<open>process_email_html\<close> calls outside its \<^verbatim>\<open>try\<close>: an
  exception of the parser, or of the identity library when the authenticator is built,
  leaves the run, with nothing sent and nothing written.
\<close>

lemma parser_exception_leaves_run:
  assumes "w_bs w html_body = Inl e"
  shows "process_email_html w html_body use_password_auth st = (Inl e, st)"
  using assms by (simp add: process_email_html_def extract_meeting_info_def err_bind_def)

lemma constructor_exception_leaves_run:
  assumes "extract_meeting_info (w_bs w) html_body = Inr info"
    and "thread_id info = Some mid" and "mid \<noteq> []"
    and "GraphAuth (w_msal w) (w_config w) = Inl e"
  shows "process_email_html w html_body use_password_auth st = (Inl e, st)"
  using assms by (simp add: process_email_html_def opt_json_def py_truthy_def)

text \<open>
  The assembly and its persistence in general. In a run that has the collection of
  reports at hand, where each report is a dictionary and each fetch of records returns a
  list or \<open>None\<close>, the loop fetches once per report and never stops early, and the list it
  assembles is the concatenation of what the fetches returned: a failed or empty fetch
  adds nothing and ends nothing. Whenever the display id was extracted, the directory and
  the file can be written and the records can be summarised, the run returns the path of
  the file, and the file holds the meeting info, the reports and exactly that flat list.
\<close>

lemma records_assembled_and_persisted:
  assumes info: "extract_meeting_info (w_bs w) html_body = Inr info"
    and tid: "thread_id info = Some mid" "mid \<noteq> []"
    and stage: "report_stage w mid st = Some (reports, c1, st1)"
    and some: "reports \<noteq> []"
    and dicts: "\<forall>r\<in>set reports. is_dict r"
    and outcomes: "\<forall>j\<in>set (fetch_each w c1 mid reports st1). none_or_list j"
  shows "(\<exists>st'. collect_records w c1 mid reports [] st1 =
            (Inr (concat (map records_of (fetch_each w c1 mid reports st1))), st'))
     \<and> length (fetch_each w c1 mid reports st1) = length reports
     \<and> length (concat (map records_of (fetch_each w c1 mid reports st1))) =
         sum_list (map (\<lambda>j. length (records_of j)) (fetch_each w c1 mid reports st1))
     \<and> (\<forall>m. meeting_id info = Some m \<longrightarrow> w_makedirs_ok w ''attendance_reports'' \<longrightarrow>
            w_open_ok w (report_file w m) \<longrightarrow>
            print_summary (concat (map records_of (fetch_each w c1 mid reports st1))) = Inr () \<longrightarrow>
            fst (process_email_html w html_body True st) = Inr (Some (report_file w m))
            \<and> files (snd (process_email_html w html_body True st)) (report_file w m) =
                Some (JObj [(''meeting_info'', info_json info),
                            (''attendance_data'',
                             JObj [(''reports'', JArr reports),
                                   (''attendance_records'',
                                    JArr (concat (map records_of
                                            (fetch_each w c1 mid reports st1))))]),
                            (''extracted_at'', JStr (w_isoformat w))]))"
proof -
  from report_stage_Some [OF stage] obtain fresh client rep tok where
      fresh: "GraphAuth (w_msal w) (w_config w) = Inr fresh"
      and client0: "GraphClient
           (st\<lparr>auths := (auths st)(next_ref st := snd (authenticate_with_password fresh)),
               next_ref := Suc (next_ref st)\<rparr>) (next_ref st) = Inr client"
      and call0: "get_online_meeting_attendance_report (w_net w) client mid
           (st\<lparr>auths := (auths st)(next_ref st := snd (authenticate_with_password fresh)),
               next_ref := Suc (next_ref st)\<rparr>) = (Inr rep, c1, st1)"
      and val: "py_get rep ''value'' (JArr []) = Inr (JArr reports)"
      and tok0: "get_access_token (snd (authenticate_with_password fresh)) = Inr tok"
    by blast
  define obj where "obj = snd (authenticate_with_password fresh)"
  define st2 where
    "st2 = st\<lparr>auths := (auths st)(next_ref st := obj), next_ref := Suc (next_ref st)\<rparr>"
  define all_records where
    "all_records = concat (map records_of (fetch_each w c1 mid reports st1))"
  have client: "GraphClient st2 (next_ref st) = Inr client"
    and call: "get_online_meeting_attendance_report (w_net w) client mid st2 = (Inr rep, c1, st1)"
    and tok: "get_access_token obj = Inr tok"
    using client0 call0 tok0 unfolding obj_def st2_def by simp_all
  from password_grant_succeeded [OF GraphAuth_fresh [OF fresh] tok0] obtain t where
      grant: "fst (authenticate_with_password fresh) = Inr t"
    by blast
  have run: "process_email_html w html_body True st = fetch_and_save w info (next_ref st) st2"
    unfolding st2_def obj_def by (rule process_to_fetch [OF info tid fresh grant])
  have aclient: "auth client = next_ref st"
    using client by (auto simp: GraphClient_def err_bind_def split: sum.splits)
  from report_frame [OF call] aclient
  have frame: "auth c1 = next_ref st" "auths st1 = auths st2"
    by simp_all
  have tok1: "get_access_token (auths st1 (auth c1)) = Inr tok"
    using tok frame by (simp add: st2_def)
  from collect_records_concat [OF dicts tok1 outcomes, of "[]"] obtain st3 where
      loop: "collect_records w c1 mid reports [] st1 = (Inr all_records, st3)"
      and len: "length (fetch_each w c1 mid reports st1) = length reports"
    unfolding all_records_def by auto
  from val obtain kvs where rep: "rep = JObj kvs"
      and look: "(case map_of kvs ''value'' of None \<Rightarrow> JArr [] | Some v \<Rightarrow> v) = JArr reports"
    by (cases rep) (auto simp: py_get_def)
  from look some have kvs: "kvs \<noteq> []"
    by (cases kvs) auto
  have truthy: "py_truthy rep" "py_truthy (JArr reports)" "py_iter (JArr reports) = Inr reports"
    using rep kvs some by (simp_all add: py_truthy_def py_iter_def)
  have mid: "py_format (w_pystr w) (opt_json (thread_id info)) = mid"
    by (simp add: tid opt_json_def py_format_def)
  have persisted: "fst (process_email_html w html_body True st) = Inr (Some (report_file w m))
      \<and> files (snd (process_email_html w html_body True st)) (report_file w m) =
          Some (JObj [(''meeting_info'', info_json info),
                      (''attendance_data'',
                       JObj [(''reports'', JArr reports), (''attendance_records'', JArr all_records)]),
                      (''extracted_at'', JStr (w_isoformat w))])"
    if persist: "meeting_id info = Some m" "w_makedirs_ok w ''attendance_reports''"
      "w_open_ok w (report_file w m)"
      and summary: "print_summary all_records = Inr ()" for m
  proof -
    have save: "save_attendance_report w info
          (JObj [(''reports'', JArr reports), (''attendance_records'', JArr all_records)])
          ''attendance_reports'' st3 =
        (Inr (report_file w m),
         st3\<lparr>files := (files st3)(report_file w m \<mapsto>
            JObj [(''meeting_info'', info_json info),
                  (''attendance_data'',
                   JObj [(''reports'', JArr reports), (''attendance_records'', JArr all_records)]),
                  (''extracted_at'', JStr (w_isoformat w))])\<rparr>)"
      using persist by (simp add: save_attendance_report_def report_file_def Let_def)
    have "fetch_and_save w info (next_ref st) st2 =
        (Inr (Some (report_file w m)),
         st3\<lparr>files := (files st3)(report_file w m \<mapsto>
            JObj [(''meeting_info'', info_json info),
                  (''attendance_data'',
                   JObj [(''reports'', JArr reports), (''attendance_records'', JArr all_records)]),
                  (''extracted_at'', JStr (w_isoformat w))])\<rparr>)"
      unfolding fetch_and_save_def
      by (simp add: client mid call truthy val loop save summary)
    with run show ?thesis
      by simp
  qed
  have total: "length all_records =
      sum_list (map (\<lambda>j. length (records_of j)) (fetch_each w c1 mid reports st1))"
    by (simp add: all_records_def length_concat comp_def)
  from loop len total persisted show ?thesis
    unfolding all_records_def by blast
qed

text \<open>
  On the invitation that has the join link and both spans, with two reports whose fetches
  return 3 and 0 records, the list has 3 records and the file is written.
\<close>

lemma records_assembled_and_persisted_example:
  "map (\<lambda>j. length (records_of j))
      (fetch_each sample_world loop_client ''19:meeting_ABC123''
         [JObj [(''id'', JStr ''R1'')], JObj [(''id'', JStr ''R2'')]] loop_state) = [3, 0]
   \<and> fst (process_email_html sample_world (anchor_html @ spans_html) True state0) =
       Inr (Some ''attendance_reports/attendance_12345678901234_20240101_120000.json'')
   \<and> map_option (\<lambda>j. map_sum id records_of
          (err_bind (py_get j ''attendance_data'' JNull) (\<lambda>d. py_get d ''attendance_records'' JNull)))
        (files (snd (process_email_html sample_world (anchor_html @ spans_html) True state0))
           ''attendance_reports/attendance_12345678901234_20240101_120000.json'') =
       Some (Inr [attendee ''Ann'', attendee ''Bob'', attendee ''Cy''])"
proof -
  let ?mid = "''19:meeting_ABC123''"
  let ?reports = "[JObj [(''id'', JStr ''R1'')], JObj [(''id'', JStr ''R2'')]]"
  let ?info = "\<lparr>meeting_id = Some ''12345678901234'', passcode = Some ''EXAMPLE'',
      join_link = Some sample_link, thread_id = Some ?mid, organizer_id = Some ''ORG1'',
      tenant_id = Some ''TENANT1%22%2c%22Oid%22%3a%22ORG1''\<rparr>"
  have info: "extract_meeting_info (w_bs sample_world) (anchor_html @ spans_html) = Inr ?info"
    by code_simp
  have tid: "thread_id ?info = Some ?mid" "?mid \<noteq> []"
    by simp_all
  have reports: "map_option fst (report_stage sample_world ?mid state0) = Some ?reports"
    by code_simp
  then obtain p where p: "report_stage sample_world ?mid state0 = Some p" "fst p = ?reports"
    by (cases "report_stage sample_world ?mid state0") auto
  have stage: "report_stage sample_world ?mid state0 = Some (?reports, loop_client, loop_state)"
    using p by (cases p) (simp add: loop_client_def loop_state_def)
  have some: "?reports \<noteq> []"
    by simp
  have dicts: "\<forall>r\<in>set ?reports. is_dict r"
    by (simp add: is_dict_def)
  have each: "fetch_each sample_world loop_client ?mid ?reports loop_state =
      [JArr [attendee ''Ann'', attendee ''Bob'', attendee ''Cy''], JArr []]"
    by code_simp
  have outcomes: "\<forall>j\<in>set (fetch_each sample_world loop_client ?mid ?reports loop_state).
      none_or_list j"
    unfolding each by (simp add: none_or_list_def)
  have summary: "print_summary (concat (map records_of
      (fetch_each sample_world loop_client ?mid ?reports loop_state))) = Inr ()"
    unfolding each by code_simp
  have persist: "meeting_id ?info = Some ''12345678901234''"
      "w_makedirs_ok sample_world ''attendance_reports''"
      "w_open_ok sample_world (report_file sample_world ''12345678901234'')"
    by (simp_all add: sample_world_def)
  have name: "report_file sample_world ''12345678901234'' =
      ''attendance_reports/attendance_12345678901234_20240101_120000.json''"
    by code_simp
  note T = records_assembled_and_persisted [OF info tid stage some dicts outcomes]
  from T persist summary
  have "fst (process_email_html sample_world (anchor_html @ spans_html) True state0) =
        Inr (Some (report_file sample_world ''12345678901234''))
      \<and> files (snd (process_email_html sample_world (anchor_html @ spans_html) True state0))
          (report_file sample_world ''12345678901234'') =
          Some (JObj [(''meeting_info'', info_json ?info),
                      (''attendance_data'',
                       JObj [(''reports'', JArr ?reports),
                             (''attendance_records'',
                              JArr (concat (map records_of
                                      (fetch_each sample_world loop_client ?mid ?reports
                                         loop_state))))]),
                      (''extracted_at'', JStr (w_isoformat sample_world))])"
    by blast
  then show ?thesis
    unfolding each name by (simp add: records_of_def py_get_def err_bind_def)
qed

text \<open>
  C6. With two reports whose fetches of records return 3 and 0 records, the loop fetches
  for both reports and assembles a flat list of 3 records, but the run does not succeed
  and nothing is persisted. On the invitation that has the join link and no display id
  the run reaches the collection of two reports, sends the four requests (the meeting,
  its reports, the records of \<open>R1\<close> and of \<open>R2\<close>), and then raises
  \<^verbatim>\<open>AttributeError\<close> in \<open>save_attendance_report\<close>: no file is written.
\<close>

theorem assembled_records_not_persisted:
  "map_sum id thread_id (extract_meeting_info sample_bs anchor_html) = Inr (Some ''19:meeting_ABC123'')
   \<and> map_option fst (report_stage sample_world ''19:meeting_ABC123'' state0) =
       Some [JObj [(''id'', JStr ''R1'')], JObj [(''id'', JStr ''R2'')]]
   \<and> map (\<lambda>j. length (records_of j))
       (fetch_each sample_world loop_client ''19:meeting_ABC123''
          [JObj [(''id'', JStr ''R1'')], JObj [(''id'', JStr ''R2'')]] loop_state) = [3, 0]
   \<and> map_sum id length
       (fst (collect_records sample_world loop_client ''19:meeting_ABC123''
               [JObj [(''id'', JStr ''R1'')], JObj [(''id'', JStr ''R2'')]] [] loop_state)) = Inr 3
   \<and> map req_url (sent (snd (process_email_html sample_world anchor_html True state0))) =
       [''https://graph.microsoft.com/v1.0/me/onlineMeetings/19:meeting_ABC123'',
        ''https://graph.microsoft.com/v1.0/me/onlineMeetings/19:meeting_ABC123/attendanceReports'',
        ''https://graph.microsoft.com/v1.0/me/onlineMeetings/19:meeting_ABC123/attendanceReports/R1/attendanceRecords'',
        ''https://graph.microsoft.com/v1.0/me/onlineMeetings/19:meeting_ABC123/attendanceReports/R2/attendanceRecords'']
   \<and> fst (process_email_html sample_world anchor_html True state0) = Inl AttributeError
   \<and> (\<forall>path. files (snd (process_email_html sample_world anchor_html True state0)) path = None)"
proof -
  have unwritten: "files (snd (process_email_html sample_world anchor_html True state0)) path = None"
    for path
    by code_simp
  have "map_sum id thread_id (extract_meeting_info sample_bs anchor_html) =
      Inr (Some ''19:meeting_ABC123'')"
    by code_simp
  moreover have "map_option fst (report_stage sample_world ''19:meeting_ABC123'' state0) =
       Some [JObj [(''id'', JStr ''R1'')], JObj [(''id'', JStr ''R2'')]]"
    by code_simp
  moreover have "map (\<lambda>j. length (records_of j))
       (fetch_each sample_world loop_client ''19:meeting_ABC123''
          [JObj [(''id'', JStr ''R1'')], JObj [(''id'', JStr ''R2'')]] loop_state) = [3, 0]"
    by code_simp
  moreover have "map_sum id length
       (fst (collect_records sample_world loop_client ''19:meeting_ABC123''
               [JObj [(''id'', JStr ''R1'')], JObj [(''id'', JStr ''R2'')]] [] loop_state)) = Inr 3"
    by code_simp
  moreover have "map req_url (sent (snd (process_email_html sample_world anchor_html True state0))) =
       [''https://graph.microsoft.com/v1.0/me/onlineMeetings/19:meeting_ABC123'',
        ''https://graph.microsoft.com/v1.0/me/onlineMeetings/19:meeting_ABC123/attendanceReports'',
        ''https://graph.microsoft.com/v1.0/me/onlineMeetings/19:meeting_ABC123/attendanceReports/R1/attendanceRecords'',
        ''https://graph.microsoft.com/v1.0/me/onlineMeetings/19:meeting_ABC123/attendanceReports/R2/attendanceRecords'']"
    by code_simp
  moreover have "fst (process_email_html sample_world anchor_html True state0) = Inl AttributeError"
    by code_simp
  ultimately show ?thesis
    using unwritten by blast
qed

text \<open>
  C4. On the invitation that has the join link and no display id, with a successful grant
  and a server that has reports for the meeting, \<open>process_email_html\<close> does not return:
  \<^verbatim>\<open>AttributeError\<close> leaves it, raised in \<open>save_attendance_report\<close> by
  \<^verbatim>\<open>None.replace\<close>, with either kind of grant. No file is written, not even one named
  after the fallback \<open>unknown\<close>.
\<close>

theorem save_raises_without_display_id:
  "map_sum id thread_id (extract_meeting_info sample_bs anchor_html) = Inr (Some ''19:meeting_ABC123'')
   \<and> map_sum id meeting_id (extract_meeting_info sample_bs anchor_html) = Inr None
   \<and> fst (process_email_html sample_world anchor_html True state0) = Inl AttributeError
   \<and> fst (process_email_html sample_world anchor_html False state0) = Inl AttributeError
   \<and> files (snd (process_email_html sample_world anchor_html True state0))
        ''attendance_reports/attendance_unknown_20240101_120000.json'' = None"
  by code_simp

section \<open>The refresh utility\<close>

text \<open>
  C10. When the token endpoint's answer holds an \<open>access_token\<close> and no
  \<open>refresh_token\<close> (and the status is outside 400 to 599 and the file can be opened), the
  refresh token given as input is the one kept: it is the \<open>refresh_token\<close> entry of the
  \<open>output\<close> dictionary and the last line written to \<^verbatim>\<open>access_token.txt\<close>, character for
  character. The parsed answer is returned, and the six lines printed do not mention a
  refresh token.
\<close>

theorem refresh_token_kept:
  assumes post: "rt_post env
        (''https://login.microsoftonline.com/'' @ rt_TENANT_ID env @ ''/oauth2/v2.0/token'')
        [(''grant_type'', ''refresh_token''), (''client_id'', rt_CLIENT_ID env),
         (''client_secret'', rt_CLIENT_SECRET env), (''refresh_token'', refresh_token),
         (''scope'', rt_SCOPE env)] = Some resp"
    and status: "status_code resp < 400 \<or> 600 \<le> status_code resp"
    and body: "json_body resp = Some (JObj result)"
    and acc: "map_of result ''access_token'' = Some tok"
    and no_new: "map_of result ''refresh_token'' = None"
    and wr: "rt_open_ok env"
  shows "written (refresh_access_token env refresh_token) =
       Some (''Bearer Token: '' @ py_format (rt_pystr env) tok @ [CHR 0x0A]
             @ ''Token Type: ''
             @ py_format (rt_pystr env) (json_get result ''token_type'' (JStr ''Bearer''))
             @ [CHR 0x0A]
             @ ''Expires In: '' @ py_format (rt_pystr env) (json_get result ''expires_in'' JNull)
             @ '' seconds'' @ [CHR 0x0A, CHR 0x0A]
             @ ''Refresh Token: '' @ refresh_token @ [CHR 0x0A])
     \<and> (\<exists>outp. output_dict (refresh_access_token env refresh_token) = Some outp
           \<and> map_of outp ''refresh_token'' = Some (JStr refresh_token))
     \<and> returned (refresh_access_token env refresh_token) = JObj result
     \<and> length (stdout (refresh_access_token env refresh_token)) = 6"
proof -
  from status have s: "(400 \<le> status_code resp \<and> status_code resp < 600) = False"
    by auto
  have run: "refresh_access_token env refresh_token = report_tokens env refresh_token result"
    unfolding refresh_access_token_def Let_def post using body acc
    by (simp only: s option.case if_False json.case) simp
  show ?thesis
    unfolding run using acc no_new wr
    by (simp add: report_tokens_def Let_def json_get_def py_format_def)
qed

theorem refresh_token_kept_witness:
  "written (refresh_access_token sample_refresh_env ''OLD-REFRESH-TOKEN'') =
     Some (''Bearer Token: NEWTOKEN'' @ [CHR 0x0A] @ ''Token Type: Bearer'' @ [CHR 0x0A]
           @ ''Expires In: 3600 seconds'' @ [CHR 0x0A, CHR 0x0A]
           @ ''Refresh Token: OLD-REFRESH-TOKEN'' @ [CHR 0x0A])
   \<and> returned (refresh_access_token sample_refresh_env ''OLD-REFRESH-TOKEN'') =
       JObj [(''token_type'', JStr ''Bearer''), (''expires_in'', JNum 3600),
             (''access_token'', JStr ''NEWTOKEN'')]"
proof -
  let ?result = "[(''token_type'', JStr ''Bearer''), (''expires_in'', JNum 3600),
                  (''access_token'', JStr ''NEWTOKEN'')]"
  let ?resp = "\<lparr>status_code = 200, resp_text = [], json_body = Some (JObj ?result)\<rparr>"
  have post: "rt_post sample_refresh_env
        (''https://login.microsoftonline.com/'' @ rt_TENANT_ID sample_refresh_env
           @ ''/oauth2/v2.0/token'')
        [(''grant_type'', ''refresh_token''), (''client_id'', rt_CLIENT_ID sample_refresh_env),
         (''client_secret'', rt_CLIENT_SECRET sample_refresh_env),
         (''refresh_token'', ''OLD-REFRESH-TOKEN''),
         (''scope'', rt_SCOPE sample_refresh_env)] = Some ?resp"
    by (simp add: sample_refresh_env_def)
  have status: "status_code ?resp < 400 \<or> 600 \<le> status_code ?resp"
    by simp
  have body: "json_body ?resp = Some (JObj ?result)"
    by simp
  have acc: "map_of ?result ''access_token'' = Some (JStr ''NEWTOKEN'')"
    by simp
  have no_new: "map_of ?result ''refresh_token'' = None"
    by simp
  have wr: "rt_open_ok sample_refresh_env"
    by (simp add: sample_refresh_env_def)
  from refresh_token_kept [OF post status body acc no_new wr]
  show ?thesis
    by (simp add: sample_refresh_env_def py_format_def json_get_def)
qed

end
